theory Spec2Isabelle
  imports Complex_Main "HOL-Library.Word"
begin

section \<open>Numeric types of the host language\<close>

text \<open>
  The sources are C++ on an LP64 platform: \<open>int\<close> is a 32-bit two's complement integer,
  \<open>size_t\<close> a 64-bit unsigned one. A word carries no sign of its own: a signed type is
  read with \<open>sint\<close>, an unsigned one with \<open>uint\<close>. Arithmetic on \<open>int\<close> wraps around.
\<close>

type_synonym cint = "32 word"
type_synonym size_t = "64 word"

type_synonym UInt8 = "8 word"
type_synonym UInt16 = "16 word"
type_synonym UInt32 = "32 word"
type_synonym UInt64 = "64 word"
type_synonym Int8 = "8 word"
type_synonym Int16 = "16 word"
type_synonym Int32 = "32 word"
type_synonym Int64 = "64 word"

text \<open>
  A floating-point object is modelled by the number it holds: a rational, one of the two
  infinities, or not-a-number. The sign of zero is not represented. \<open>double\<close> and
  \<open>float\<close> differ in the values they can hold, which \<open>fp_round\<close> selects.
\<close>

datatype fpval = Fin rat | PInf | NInf | NaN

type_synonym double = fpval
type_synonym float = fpval

function bitlen :: "int \<Rightarrow> nat" where
  "bitlen a = (if a \<le> 0 then 0 else Suc (bitlen (a div 2)))"
  by pat_completeness auto
termination
  by (relation "measure nat") auto

declare bitlen.simps [simp del]

text \<open>
  \<open>bitlen\<close> counts the binary digits of a positive integer; \<open>floor_log2\<close> is the
  exponent of the leading binary digit of a positive rational.
\<close>

definition floor_log2 :: "rat \<Rightarrow> int" where
  "floor_log2 q =
     (let (a, b) = quotient_of q;
          k = int (bitlen a) - int (bitlen b)
      in if power_int 2 k \<le> q then k else k - 1)"

text \<open>
  Rounding to the nearest value of a binary format with \<open>p\<close> significant digits and
  largest exponent \<open>emax\<close>, ties to the even significand (IEEE 754): \<open>p = 53\<close>,
  \<open>emax = 1023\<close> for \<open>double\<close> and \<open>p = 24\<close>, \<open>emax = 127\<close> for \<open>float\<close>.
\<close>

definition fp_round :: "nat \<Rightarrow> int \<Rightarrow> rat \<Rightarrow> fpval" where
  "fp_round p emax q =
     (if q = 0 then Fin 0
      else
        let e = max (floor_log2 \<bar>q\<bar>) (1 - emax);
            u = power_int 2 (e - (int p - 1));
            m = \<bar>q\<bar> / u;
            f = \<lfloor>m\<rfloor>;
            d = m - of_int f;
            r = (if d < 1 / 2 then f
                 else if 1 / 2 < d then f + 1
                 else if even f then f else f + 1);
            v = of_int r * u
        in if power_int 2 (emax + 1) \<le> v then (if 0 < q then PInf else NInf)
           else Fin (sgn q * v))"

text \<open>Conversion of a floating-point number to an integer discards the fraction.\<close>

definition trunc_toward_zero :: "rat \<Rightarrow> int" where
  "trunc_toward_zero q = (if 0 \<le> q then \<lfloor>q\<rfloor> else \<lceil>q\<rceil>)"

text \<open>
  The value of an arithmetic expression before it is converted: that of an integer type
  or of a floating-point type.
\<close>

datatype numv = IntV int | FpV fpval

text \<open>
  Conversion to an integer type. An integer is reduced modulo \<open>2 ^ w\<close>. A floating-point
  number is truncated, and the result is the truncated number when the target type can
  hold it. When it cannot (also for an infinity and for not-a-number) C++ leaves the
  result open and the processor decides: that result is the parameter \<open>oor\<close> of the
  model, a function of the width of the target, its signedness and the number. Every
  property below holds for every such function.
\<close>

type_synonym out_of_range = "nat \<Rightarrow> bool \<Rightarrow> fpval \<Rightarrow> int"

definition fits :: "nat \<Rightarrow> bool \<Rightarrow> int \<Rightarrow> bool" where
  "fits w sg t =
     (if sg then - (2 ^ (w - 1)) \<le> t \<and> t < 2 ^ (w - 1) else 0 \<le> t \<and> t < 2 ^ w)"

fun to_word :: "out_of_range \<Rightarrow> bool \<Rightarrow> numv \<Rightarrow> 'a::len word" where
  "to_word oor sg (IntV i) = word_of_int i"
| "to_word oor sg (FpV (Fin q)) =
     (if fits LENGTH('a) sg (trunc_toward_zero q) then word_of_int (trunc_toward_zero q)
      else word_of_int (oor LENGTH('a) sg (Fin q)))"
| "to_word oor sg (FpV PInf) = word_of_int (oor LENGTH('a) sg PInf)"
| "to_word oor sg (FpV NInf) = word_of_int (oor LENGTH('a) sg NInf)"
| "to_word oor sg (FpV NaN) = word_of_int (oor LENGTH('a) sg NaN)"

text \<open>
  The examples below convert numbers that their targets can hold, so the choice of the
  processor is never asked for; they run with this one.
\<close>

definition oor_example :: out_of_range where
  "oor_example w sg d = 0"

fun fp_narrow :: "nat \<Rightarrow> int \<Rightarrow> fpval \<Rightarrow> fpval" where
  "fp_narrow p emax (Fin q) = fp_round p emax q"
| "fp_narrow p emax PInf = PInf"
| "fp_narrow p emax NInf = NInf"
| "fp_narrow p emax NaN = NaN"

fun to_double :: "numv \<Rightarrow> double" where
  "to_double (IntV i) = fp_round 53 1023 (of_int i)"
| "to_double (FpV d) = d"

fun to_float :: "numv \<Rightarrow> float" where
  "to_float (IntV i) = fp_round 24 127 (of_int i)"
| "to_float (FpV d) = fp_narrow 24 127 d"

text \<open>
  The conversions of the scalar fields. Every 32-bit integer is a \<open>double\<close>, so
  \<open>double(int)\<close> and \<open>double(unsigned)\<close> are exact. \<open>bool(double)\<close> is true unless the
  number is zero. \<open>==\<close> on \<open>double\<close> is false when a side is not-a-number.
\<close>

definition double_of_int :: "cint \<Rightarrow> double" where
  "double_of_int i = Fin (of_int (sint i))"

definition double_of_unsigned :: "UInt32 \<Rightarrow> double" where
  "double_of_unsigned i = Fin (of_int (uint i))"

definition int_of_double :: "out_of_range \<Rightarrow> double \<Rightarrow> cint" where
  "int_of_double oor d = to_word oor True (FpV d)"

definition unsigned_of_double :: "out_of_range \<Rightarrow> double \<Rightarrow> UInt32" where
  "unsigned_of_double oor d = to_word oor False (FpV d)"

definition double_of_bool :: "bool \<Rightarrow> double" where
  "double_of_bool b = (if b then Fin 1 else Fin 0)"

definition bool_of_double :: "double \<Rightarrow> bool" where
  "bool_of_double d = (d \<noteq> Fin 0)"

definition double_eq :: "double \<Rightarrow> double \<Rightarrow> bool" where
  "double_eq a b = (a \<noteq> NaN \<and> b \<noteq> NaN \<and> a = b)"

section \<open>Outcomes of a call\<close>

datatype error = InvalidArgument | PreconditionViolation | IndexOutOfRange

text \<open>
  A call returns, or leaves by an exception, or has no defined behaviour (an access
  outside an array, a range that ends before it starts). \<open>Raised e s\<close> keeps the state
  \<open>s\<close> of the object at the moment the exception leaves the call.
\<close>

datatype 'a outcome = Returned 'a | Raised error 'a | Undefined

text \<open>
  Modelled from the spec: the macro \<open>vigra_precondition(condition, message)\<close> comes from
  a header that is not part of the sources at hand. It does nothing when the condition
  holds and leaves the call by an exception otherwise. The macro has one exception for
  all its calls, whatever the message: the one that section 7 of the specification names
  for the length checks, which are calls of this macro, \<open>PreconditionViolation\<close>.
\<close>

definition vigra_precondition :: "bool \<Rightarrow> string \<Rightarrow> 's \<Rightarrow> 's outcome \<Rightarrow> 's outcome" where
  "vigra_precondition c message s k = (if c then k else Raised PreconditionViolation s)"

section \<open>RandomForestOptions\<close>

text \<open>
  An object of an enumeration type holds a number of the underlying type, which is
  \<open>unsigned int\<close> for an enumeration without a negative enumerator. The enumerators are
  names of the numbers from 0 on; a conversion can store any other number.
\<close>

datatype RF_OptionTag = RF_OptionTag UInt32

definition RF_EQUAL :: RF_OptionTag where "RF_EQUAL = RF_OptionTag 0"
definition RF_PROPORTIONAL :: RF_OptionTag where "RF_PROPORTIONAL = RF_OptionTag 1"
definition RF_EXTERNAL :: RF_OptionTag where "RF_EXTERNAL = RF_OptionTag 2"
definition RF_NONE :: RF_OptionTag where "RF_NONE = RF_OptionTag 3"
definition RF_FUNCTION :: RF_OptionTag where "RF_FUNCTION = RF_OptionTag 4"
definition RF_LOG :: RF_OptionTag where "RF_LOG = RF_OptionTag 5"
definition RF_SQRT :: RF_OptionTag where "RF_SQRT = RF_OptionTag 6"
definition RF_CONST :: RF_OptionTag where "RF_CONST = RF_OptionTag 7"
definition RF_ALL :: RF_OptionTag where "RF_ALL = RF_OptionTag 8"

fun RF_OptionTag_ord :: "RF_OptionTag \<Rightarrow> UInt32" where
  "RF_OptionTag_ord (RF_OptionTag i) = i"

text \<open>
  A function pointer is \<open>None\<close> when it is null. A field name of the source ends
  in an underscore, which a name cannot do here: it is followed by a prime.
\<close>

record RandomForestOptions =
  training_set_proportion_' :: double
  training_set_size_' :: cint
  training_set_func_' :: "(cint \<Rightarrow> cint) option"
  training_set_calc_switch_' :: RF_OptionTag
  sample_with_replacement_' :: bool
  stratification_method_' :: RF_OptionTag
  mtry_switch_' :: RF_OptionTag
  mtry_' :: cint
  mtry_func_' :: "(cint \<Rightarrow> cint) option"
  tree_count_' :: cint
  min_split_node_size_' :: cint

definition RandomForestOptions_init :: RandomForestOptions where
  "RandomForestOptions_init =
     \<lparr> training_set_proportion_' = Fin 1,
       training_set_size_' = 0,
       training_set_func_' = None,
       training_set_calc_switch_' = RF_PROPORTIONAL,
       sample_with_replacement_' = True,
       stratification_method_' = RF_NONE,
       mtry_switch_' = RF_SQRT,
       mtry_' = 0,
       mtry_func_' = None,
       tree_count_' = 256,
       min_split_node_size_' = 1 \<rparr>"

definition RandomForestOptions_serialized_size :: "RandomForestOptions \<Rightarrow> size_t" where
  "RandomForestOptions_serialized_size opt = 11"

text \<open>
  \<open>operator==\<close>: the nine comparisons of the macro \<open>COMPARE\<close>, in its order. The two
  function pointers are not compared.
\<close>

definition RandomForestOptions_eq :: "RandomForestOptions \<Rightarrow> RandomForestOptions \<Rightarrow> bool" where
  "RandomForestOptions_eq this son_of_crap =
     (double_eq (training_set_proportion_' this) (training_set_proportion_' son_of_crap)
      \<and> training_set_size_' this = training_set_size_' son_of_crap
      \<and> training_set_calc_switch_' this = training_set_calc_switch_' son_of_crap
      \<and> sample_with_replacement_' this = sample_with_replacement_' son_of_crap
      \<and> stratification_method_' this = stratification_method_' son_of_crap
      \<and> mtry_switch_' this = mtry_switch_' son_of_crap
      \<and> mtry_' this = mtry_' son_of_crap
      \<and> tree_count_' this = tree_count_' son_of_crap
      \<and> min_split_node_size_' this = min_split_node_size_' son_of_crap)"

definition use_stratification :: "RF_OptionTag \<Rightarrow> RandomForestOptions \<Rightarrow> RandomForestOptions outcome" where
  "use_stratification tag opt =
     vigra_precondition
       (tag = RF_EQUAL \<or> tag = RF_PROPORTIONAL \<or> tag = RF_EXTERNAL \<or> tag = RF_NONE)
       ''RandomForestOptions::use_stratification()input must be RF_EQUAL, RF_PROPORTIONAL,RF_EXTERNAL or RF_NONE''
       opt
       (Returned (opt\<lparr>stratification_method_' := tag\<rparr>))"

text \<open>
  The setter of the sample proportion stores its argument as it is.
\<close>

definition samples_per_tree_double :: "double \<Rightarrow> RandomForestOptions \<Rightarrow> RandomForestOptions" where
  "samples_per_tree_double x opt =
     opt\<lparr>training_set_proportion_' := x, training_set_calc_switch_' := RF_PROPORTIONAL\<rparr>"

text \<open>
  The buffer of \<open>serialize\<close> and \<open>unserialize\<close> is the list of the numbers between
  \<open>begin\<close> and \<open>end\<close>; the iterator \<open>iter\<close> is a position in it. \<open>PUSH_all\<close> is a
  sequence of \<open>*iter = double(item); ++iter\<close>; a write at or behind \<open>end\<close> has no
  defined behaviour.
\<close>

fun PUSH_all :: "double list \<Rightarrow> nat \<times> double list \<Rightarrow> (nat \<times> double list) option" where
  "PUSH_all [] it = Some it"
| "PUSH_all (v # vs) (i, buf) =
     (if i < length buf then PUSH_all vs (Suc i, buf[i := v]) else None)"

definition RandomForestOptions_serialize :: "RandomForestOptions \<Rightarrow> double list \<Rightarrow> double list outcome" where
  "RandomForestOptions_serialize opt buf =
     vigra_precondition (int (length buf) = 11)
       ''RandomForestOptions::serialize():wrong number of parameters'' buf
       (case PUSH_all
          [ training_set_proportion_' opt,
            double_of_int (training_set_size_' opt),
            (if training_set_func_' opt \<noteq> None then double_of_int 1 else double_of_int 0),
            double_of_unsigned (RF_OptionTag_ord (training_set_calc_switch_' opt)),
            double_of_bool (sample_with_replacement_' opt),
            double_of_unsigned (RF_OptionTag_ord (stratification_method_' opt)),
            double_of_unsigned (RF_OptionTag_ord (mtry_switch_' opt)),
            double_of_int (mtry_' opt),
            (if mtry_func_' opt \<noteq> None then double_of_int 1 else double_of_int 0),
            double_of_int (tree_count_' opt),
            double_of_int (min_split_node_size_' opt) ] (0, buf) of
          None \<Rightarrow> Undefined
        | Some (i, buf') \<Rightarrow> Returned buf')"

text \<open>
  \<open>PULL(item, type)\<close> reads the slot under the iterator, converts it and stores it in
  the field. The slots 2 and 8 (the function flags) are skipped. The fields are written
  in the order of the source.
\<close>

definition RandomForestOptions_unserialize ::
  "out_of_range \<Rightarrow> double list \<Rightarrow> RandomForestOptions \<Rightarrow> RandomForestOptions outcome" where
  "RandomForestOptions_unserialize oor buf opt =
     vigra_precondition (int (length buf) = 11)
       ''RandomForestOptions::unserialize():wrong number of parameters'' opt
       (let opt1 = opt\<lparr>training_set_proportion_' := buf ! 0\<rparr>;
            opt2 = opt1\<lparr>training_set_size_' := int_of_double oor (buf ! 1)\<rparr>;
            opt3 = opt2\<lparr>training_set_calc_switch_' :=
                          RF_OptionTag (unsigned_of_double oor (buf ! 3))\<rparr>;
            opt4 = opt3\<lparr>sample_with_replacement_' := bool_of_double (buf ! 4)\<rparr>;
            opt5 = opt4\<lparr>stratification_method_' :=
                          RF_OptionTag (unsigned_of_double oor (buf ! 5))\<rparr>;
            opt6 = opt5\<lparr>mtry_switch_' := RF_OptionTag (unsigned_of_double oor (buf ! 6))\<rparr>;
            opt7 = opt6\<lparr>mtry_' := int_of_double oor (buf ! 7)\<rparr>;
            opt8 = opt7\<lparr>tree_count_' := int_of_double oor (buf ! 9)\<rparr>;
            opt9 = opt8\<lparr>min_split_node_size_' := int_of_double oor (buf ! 10)\<rparr>
        in Returned opt9)"

section \<open>ProblemSpec\<close>

datatype Problem_t = Problem_t UInt32

definition REGRESSION :: Problem_t where "REGRESSION = Problem_t 0"
definition CLASSIFICATION :: Problem_t where "CLASSIFICATION = Problem_t 1"
definition CHECKLATER :: Problem_t where "CHECKLATER = Problem_t 2"

fun Problem_t_ord :: "Problem_t \<Rightarrow> UInt32" where
  "Problem_t_ord (Problem_t i) = i"

datatype Types_t = Types_t UInt32

definition UInt8_t :: Types_t where "UInt8_t = Types_t 0"
definition UInt16_t :: Types_t where "UInt16_t = Types_t 1"
definition UInt32_t :: Types_t where "UInt32_t = Types_t 2"
definition UInt64_t :: Types_t where "UInt64_t = Types_t 3"
definition Int8_t :: Types_t where "Int8_t = Types_t 4"
definition Int16_t :: Types_t where "Int16_t = Types_t 5"
definition Int32_t :: Types_t where "Int32_t = Types_t 6"
definition Int64_t :: Types_t where "Int64_t = Types_t 7"
definition double_t :: Types_t where "double_t = Types_t 8"
definition float_t :: Types_t where "float_t = Types_t 9"
definition UNKNOWN :: Types_t where "UNKNOWN = Types_t 10"

fun Types_t_ord :: "Types_t \<Rightarrow> UInt32" where
  "Types_t_ord (Types_t i) = i"

text \<open>
  Modelled from the spec: \<open>ArrayVector\<close>, the library's dynamic array, whose header is
  not part of the sources at hand. The specification has the catalogs and the weights as
  ordered sequences to which values are appended, so an array is a list here:
  \<open>push_back\<close> appends an element, \<open>insert\<close> at \<open>end()\<close> appends a range, \<open>clear\<close>
  empties it.

  The field \<open>used_\<close> has no initialiser in the constructor: \<open>None\<close> is the
  indeterminate value of an uninitialised \<open>bool\<close>, which an object of automatic or
  dynamic storage has.
\<close>

record ProblemSpec =
  UInt8_classes_' :: "UInt8 list"
  UInt16_classes_' :: "UInt16 list"
  UInt32_classes_' :: "UInt32 list"
  UInt64_classes_' :: "UInt64 list"
  Int8_classes_' :: "Int8 list"
  Int16_classes_' :: "Int16 list"
  Int32_classes_' :: "Int32 list"
  Int64_classes_' :: "Int64 list"
  double_classes_' :: "double list"
  float_classes_' :: "float list"
  column_count_' :: cint
  class_count_' :: cint
  row_count_' :: cint
  actual_mtry_' :: cint
  actual_msample_' :: cint
  problem_type_' :: Problem_t
  class_type_' :: Types_t
  class_weights_' :: "double list"
  is_weighted :: bool
  used_' :: "bool option"

definition ProblemSpec_init :: ProblemSpec where
  "ProblemSpec_init =
     \<lparr> UInt8_classes_' = [], UInt16_classes_' = [], UInt32_classes_' = [],
       UInt64_classes_' = [], Int8_classes_' = [], Int16_classes_' = [],
       Int32_classes_' = [], Int64_classes_' = [], double_classes_' = [],
       float_classes_' = [],
       column_count_' = 0,
       class_count_' = 0,
       row_count_' = 0,
       actual_mtry_' = 0,
       actual_msample_' = 0,
       problem_type_' = CHECKLATER,
       class_type_' = UNKNOWN,
       class_weights_' = [],
       is_weighted = False,
       used_' = None \<rparr>"


definition serialized_size :: "ProblemSpec \<Rightarrow> size_t" where
  "serialized_size p =
     signed (8 + class_count_' p * (if is_weighted p then 1 + 1 else 0 + 1) :: cint)"

definition column_count :: "cint \<Rightarrow> ProblemSpec \<Rightarrow> ProblemSpec" where
  "column_count n p = p\<lparr>column_count_' := n\<rparr>"

text \<open>
  \<open>classes_\<close> is a template over the iterator; its element type is one of the ten types
  \<open>type_of\<close> is overloaded for. The labels come with that type.
\<close>

datatype class_labels =
  UInt8_labels "UInt8 list" | UInt16_labels "UInt16 list" | UInt32_labels "UInt32 list"
  | UInt64_labels "UInt64 list" | Int8_labels "Int8 list" | Int16_labels "Int16 list"
  | Int32_labels "Int32 list" | Int64_labels "Int64 list" | double_labels "double list"
  | float_labels "float list"

fun type_of :: "class_labels \<Rightarrow> Types_t" where
  "type_of (UInt8_labels xs) = UInt8_t"
| "type_of (UInt16_labels xs) = UInt16_t"
| "type_of (UInt32_labels xs) = UInt32_t"
| "type_of (UInt64_labels xs) = UInt64_t"
| "type_of (Int8_labels xs) = Int8_t"
| "type_of (Int16_labels xs) = Int16_t"
| "type_of (Int32_labels xs) = Int32_t"
| "type_of (Int64_labels xs) = Int64_t"
| "type_of (double_labels xs) = double_t"
| "type_of (float_labels xs) = float_t"

fun label_values :: "class_labels \<Rightarrow> numv list" where
  "label_values (UInt8_labels xs) = map (\<lambda>x. IntV (uint x)) xs"
| "label_values (UInt16_labels xs) = map (\<lambda>x. IntV (uint x)) xs"
| "label_values (UInt32_labels xs) = map (\<lambda>x. IntV (uint x)) xs"
| "label_values (UInt64_labels xs) = map (\<lambda>x. IntV (uint x)) xs"
| "label_values (Int8_labels xs) = map (\<lambda>x. IntV (sint x)) xs"
| "label_values (Int16_labels xs) = map (\<lambda>x. IntV (sint x)) xs"
| "label_values (Int32_labels xs) = map (\<lambda>x. IntV (sint x)) xs"
| "label_values (Int64_labels xs) = map (\<lambda>x. IntV (sint x)) xs"
| "label_values (double_labels xs) = map FpV xs"
| "label_values (float_labels xs) = map FpV xs"

text \<open>One round of the loop of \<open>classes_\<close>: the label, converted, is appended to each catalog.\<close>

definition push_back_class :: "out_of_range \<Rightarrow> numv \<Rightarrow> ProblemSpec \<Rightarrow> ProblemSpec" where
  "push_back_class oor v p =
     p\<lparr> UInt8_classes_' := UInt8_classes_' p @ [to_word oor False v],
        UInt16_classes_' := UInt16_classes_' p @ [to_word oor False v],
        UInt32_classes_' := UInt32_classes_' p @ [to_word oor False v],
        UInt64_classes_' := UInt64_classes_' p @ [to_word oor False v],
        Int8_classes_' := Int8_classes_' p @ [to_word oor True v],
        Int16_classes_' := Int16_classes_' p @ [to_word oor True v],
        Int32_classes_' := Int32_classes_' p @ [to_word oor True v],
        Int64_classes_' := Int64_classes_' p @ [to_word oor True v],
        double_classes_' := double_classes_' p @ [to_double v],
        float_classes_' := float_classes_' p @ [to_float v] \<rparr>"

fun classes_loop :: "out_of_range \<Rightarrow> numv list \<Rightarrow> ProblemSpec \<Rightarrow> ProblemSpec" where
  "classes_loop oor [] p = p"
| "classes_loop oor (v # vs) p = classes_loop oor vs (push_back_class oor v p)"

text \<open>
  After the loop \<open>classes_\<close> calls \<open>type_of(*begin)\<close>, whose result depends on the type
  of the label alone; the model takes \<open>begin\<close> to be readable also when the range is
  empty. \<open>end-begin\<close> is narrowed to \<open>int\<close>.
\<close>

definition classes_' :: "out_of_range \<Rightarrow> class_labels \<Rightarrow> ProblemSpec \<Rightarrow> ProblemSpec" where
  "classes_' oor ls p =
     (classes_loop oor (label_values ls) p)
       \<lparr> class_type_' := type_of ls,
         class_count_' := of_nat (length (label_values ls)) \<rparr>"

fun class_weights_loop :: "double list \<Rightarrow> ProblemSpec \<Rightarrow> ProblemSpec" where
  "class_weights_loop [] p = p"
| "class_weights_loop (w # ws) p =
     class_weights_loop ws (p\<lparr>class_weights_' := class_weights_' p @ [w]\<rparr>)"

definition class_weights :: "double list \<Rightarrow> ProblemSpec \<Rightarrow> ProblemSpec" where
  "class_weights ws p = (class_weights_loop ws p)\<lparr>is_weighted := True\<rparr>"

definition clear :: "ProblemSpec \<Rightarrow> ProblemSpec" where
  "clear p =
     p\<lparr> used_' := Some False,
        UInt8_classes_' := [],
        UInt16_classes_' := [],
        UInt32_classes_' := [],
        UInt64_classes_' := [],
        Int8_classes_' := [],
        Int16_classes_' := [],
        Int32_classes_' := [],
        Int64_classes_' := [],
        double_classes_' := [],
        float_classes_' := [],
        class_weights_' := [],
        column_count_' := 0,
        class_count_' := 0,
        actual_mtry_' := 0,
        actual_msample_' := 0,
        problem_type_' := CHECKLATER,
        class_type_' := UNKNOWN,
        is_weighted := False \<rparr>"


text \<open>
  Modelled from the spec: \<open>operator[]\<close> of \<open>ArrayVector\<close>. With an index inside the
  array it gives the element at that position, the \<open>class_catalog[T][index]\<close> of the
  specification. What it does with an index outside the array is decided in the header
  of \<open>ArrayVector\<close>, which is not part of the sources at hand, and is a parameter
  \<open>bp\<close> of the model: the access is unchecked and has no defined behaviour, or it is
  checked and raises an exception.
\<close>

datatype bounds_policy = Unchecked | Checked error

definition ArrayVector_index :: "bounds_policy \<Rightarrow> 'a list \<Rightarrow> cint \<Rightarrow> 'a \<Rightarrow> 'a outcome" where
  "ArrayVector_index bp xs i out =
     (if 0 \<le> sint i \<and> sint i < int (length xs) then Returned (xs ! nat (sint i))
      else case bp of Unchecked \<Rightarrow> Undefined | Checked e \<Rightarrow> Raised e out)"

text \<open>
  \<open>to_classlabel\<close> is \<open>out = T(T_classes_[index])\<close>, once for each of the ten catalogs.
  It checks nothing itself. After an exception \<open>out\<close> is as it was.
\<close>

definition to_classlabel_UInt8 :: "bounds_policy \<Rightarrow> cint \<Rightarrow> UInt8 \<Rightarrow> ProblemSpec \<Rightarrow> UInt8 outcome" where
  "to_classlabel_UInt8 bp index out p = ArrayVector_index bp (UInt8_classes_' p) index out"

definition to_classlabel_UInt16 :: "bounds_policy \<Rightarrow> cint \<Rightarrow> UInt16 \<Rightarrow> ProblemSpec \<Rightarrow> UInt16 outcome" where
  "to_classlabel_UInt16 bp index out p = ArrayVector_index bp (UInt16_classes_' p) index out"

definition to_classlabel_UInt32 :: "bounds_policy \<Rightarrow> cint \<Rightarrow> UInt32 \<Rightarrow> ProblemSpec \<Rightarrow> UInt32 outcome" where
  "to_classlabel_UInt32 bp index out p = ArrayVector_index bp (UInt32_classes_' p) index out"

definition to_classlabel_UInt64 :: "bounds_policy \<Rightarrow> cint \<Rightarrow> UInt64 \<Rightarrow> ProblemSpec \<Rightarrow> UInt64 outcome" where
  "to_classlabel_UInt64 bp index out p = ArrayVector_index bp (UInt64_classes_' p) index out"

definition to_classlabel_Int8 :: "bounds_policy \<Rightarrow> cint \<Rightarrow> Int8 \<Rightarrow> ProblemSpec \<Rightarrow> Int8 outcome" where
  "to_classlabel_Int8 bp index out p = ArrayVector_index bp (Int8_classes_' p) index out"

definition to_classlabel_Int16 :: "bounds_policy \<Rightarrow> cint \<Rightarrow> Int16 \<Rightarrow> ProblemSpec \<Rightarrow> Int16 outcome" where
  "to_classlabel_Int16 bp index out p = ArrayVector_index bp (Int16_classes_' p) index out"

definition to_classlabel_Int32 :: "bounds_policy \<Rightarrow> cint \<Rightarrow> Int32 \<Rightarrow> ProblemSpec \<Rightarrow> Int32 outcome" where
  "to_classlabel_Int32 bp index out p = ArrayVector_index bp (Int32_classes_' p) index out"

definition to_classlabel_Int64 :: "bounds_policy \<Rightarrow> cint \<Rightarrow> Int64 \<Rightarrow> ProblemSpec \<Rightarrow> Int64 outcome" where
  "to_classlabel_Int64 bp index out p = ArrayVector_index bp (Int64_classes_' p) index out"

definition to_classlabel_double :: "bounds_policy \<Rightarrow> cint \<Rightarrow> double \<Rightarrow> ProblemSpec \<Rightarrow> double outcome" where
  "to_classlabel_double bp index out p = ArrayVector_index bp (double_classes_' p) index out"

definition to_classlabel_float :: "bounds_policy \<Rightarrow> cint \<Rightarrow> float \<Rightarrow> ProblemSpec \<Rightarrow> float outcome" where
  "to_classlabel_float bp index out p = ArrayVector_index bp (float_classes_' p) index out"

text \<open>
  \<open>insert_classes\<close> is the block of ten \<open>insert\<close> calls that ends \<open>unserialize\<close>: the
  slots from the iterator to \<open>end\<close>, converted, are appended to each catalog.
\<close>

definition insert_classes :: "out_of_range \<Rightarrow> double list \<Rightarrow> ProblemSpec \<Rightarrow> ProblemSpec" where
  "insert_classes oor ds p =
     p\<lparr> UInt8_classes_' := UInt8_classes_' p @ map (\<lambda>d. to_word oor False (FpV d)) ds,
        UInt16_classes_' := UInt16_classes_' p @ map (\<lambda>d. to_word oor False (FpV d)) ds,
        UInt32_classes_' := UInt32_classes_' p @ map (\<lambda>d. to_word oor False (FpV d)) ds,
        UInt64_classes_' := UInt64_classes_' p @ map (\<lambda>d. to_word oor False (FpV d)) ds,
        Int8_classes_' := Int8_classes_' p @ map (\<lambda>d. to_word oor True (FpV d)) ds,
        Int16_classes_' := Int16_classes_' p @ map (\<lambda>d. to_word oor True (FpV d)) ds,
        Int32_classes_' := Int32_classes_' p @ map (\<lambda>d. to_word oor True (FpV d)) ds,
        Int64_classes_' := Int64_classes_' p @ map (\<lambda>d. to_word oor True (FpV d)) ds,
        double_classes_' := double_classes_' p @ map (\<lambda>d. to_double (FpV d)) ds,
        float_classes_' := float_classes_' p @ map (\<lambda>d. to_float (FpV d)) ds \<rparr>"

text \<open>
  \<open>end - begin\<close> is the length of the buffer; the \<open>int\<close> it is compared with is widened
  with its sign. The range \<open>[iter, iter + class_count_)\<close> of the weights must lie in the
  buffer and must not end before it starts.
\<close>

definition ProblemSpec_unserialize ::
  "out_of_range \<Rightarrow> double list \<Rightarrow> ProblemSpec \<Rightarrow> ProblemSpec outcome" where
  "ProblemSpec_unserialize oor buf p =
     vigra_precondition (8 \<le> int (length buf))
       ''ProblemSpec::unserialize():wrong number of parameters'' p
       (let p1 = p\<lparr>column_count_' := int_of_double oor (buf ! 0)\<rparr>;
            p2 = p1\<lparr>class_count_' := int_of_double oor (buf ! 1)\<rparr>
        in vigra_precondition (sint (8 + class_count_' p2) \<le> int (length buf))
             ''ProblemSpec::unserialize(): 1'' p2
        (let p3 = p2\<lparr>row_count_' := int_of_double oor (buf ! 2)\<rparr>;
             p4 = p3\<lparr>actual_mtry_' := int_of_double oor (buf ! 3)\<rparr>;
             p5 = p4\<lparr>actual_msample_' := int_of_double oor (buf ! 4)\<rparr>;
             p6 = p5\<lparr>problem_type_' := Problem_t (unsigned_of_double oor (buf ! 5))\<rparr>;
             p7 = p6\<lparr>class_type_' := Types_t (unsigned_of_double oor (buf ! 6))\<rparr>;
             p8 = p7\<lparr>is_weighted := bool_of_double (buf ! 7)\<rparr>
         in if is_weighted p8
            then vigra_precondition (int (length buf) = sint (8 + 2 * class_count_' p8))
                   ''ProblemSpec::unserialize(): 2'' p8
                   (if 0 \<le> sint (class_count_' p8)
                       \<and> 8 + sint (class_count_' p8) \<le> int (length buf)
                    then Returned
                      (insert_classes oor (drop (8 + nat (sint (class_count_' p8))) buf)
                         (p8\<lparr>class_weights_' := class_weights_' p8
                               @ take (nat (sint (class_count_' p8))) (drop 8 buf)\<rparr>))
                    else Undefined)
            else Returned (insert_classes oor (drop 8 buf) p8)))"

text \<open>
  \<open>serialize\<close> compares \<open>end - begin\<close> with a \<open>size_t\<close>, so the difference is converted
  to \<open>size_t\<close>. \<open>std::copy\<close> writes like a sequence of \<open>PUSH\<close> and leaves \<open>iter\<close> where
  it was; \<open>iter += class_count_\<close> must stay inside the buffer.
\<close>

definition ProblemSpec_serialize :: "ProblemSpec \<Rightarrow> double list \<Rightarrow> double list outcome" where
  "ProblemSpec_serialize p buf =
     vigra_precondition (word_of_nat (length buf) = serialized_size p)
       ''RandomForestOptions::serialize():wrong number of parameters'' buf
       (case PUSH_all
          [ double_of_int (column_count_' p),
            double_of_int (class_count_' p),
            double_of_int (row_count_' p),
            double_of_int (actual_mtry_' p),
            double_of_int (actual_msample_' p),
            double_of_unsigned (Problem_t_ord (problem_type_' p)),
            double_of_unsigned (Types_t_ord (class_type_' p)),
            double_of_bool (is_weighted p) ] (0, buf) of
          None \<Rightarrow> Undefined
        | Some (i, buf1) \<Rightarrow>
            if is_weighted p
            then (case PUSH_all (class_weights_' p) (i, buf1) of
                    None \<Rightarrow> Undefined
                  | Some (j, buf2) \<Rightarrow>
                      if 0 \<le> int i + sint (class_count_' p)
                         \<and> int i + sint (class_count_' p) \<le> int (length buf2)
                      then (case PUSH_all (double_classes_' p)
                                   (nat (int i + sint (class_count_' p)), buf2) of
                              None \<Rightarrow> Undefined
                            | Some (k, buf3) \<Rightarrow> Returned buf3)
                      else Undefined)
            else (case PUSH_all (double_classes_' p) (i, buf1) of
                    None \<Rightarrow> Undefined
                  | Some (k, buf3) \<Rightarrow> Returned buf3))"

text \<open>
  The map of \<open>make_from_map\<close> is a partial function from keys to arrays. \<open>in[key]\<close>
  enters an empty array under a key that is missing, and \<open>[0]\<close> on an empty array has
  no defined behaviour. The call returns the object and the map.
\<close>

definition PULL_map :: "(string \<rightharpoonup> double list) \<Rightarrow> string \<Rightarrow> (double \<Rightarrow> 's outcome) \<Rightarrow> 's outcome" where
  "PULL_map m key k = (case m key of None \<Rightarrow> Undefined | Some [] \<Rightarrow> Undefined | Some (d # ds) \<Rightarrow> k d)"

definition make_from_map ::
  "out_of_range \<Rightarrow> (string \<rightharpoonup> double list) \<Rightarrow> ProblemSpec
   \<Rightarrow> (ProblemSpec \<times> (string \<rightharpoonup> double list)) outcome" where
  "make_from_map oor m p =
     PULL_map m ''column_count_'' (\<lambda>d0.
     PULL_map m ''class_count_'' (\<lambda>d1.
     PULL_map m ''row_count_'' (\<lambda>d2.
     PULL_map m ''actual_mtry_'' (\<lambda>d3.
     PULL_map m ''actual_msample_'' (\<lambda>d4.
     PULL_map m ''problem_type_'' (\<lambda>d5.
     PULL_map m ''class_type_'' (\<lambda>d6.
     PULL_map m ''is_weighted'' (\<lambda>d7.
     let p8 = p\<lparr> column_count_' := int_of_double oor d0,
                   class_count_' := int_of_double oor d1,
                   row_count_' := int_of_double oor d2,
                   actual_mtry_' := int_of_double oor d3,
                   actual_msample_' := int_of_double oor d4,
                   problem_type_' := Problem_t (unsigned_of_double oor d5),
                   class_type_' := Types_t (unsigned_of_double oor d6),
                   is_weighted := bool_of_double d7 \<rparr>
     in case m ''class_weights_'' of
          None \<Rightarrow> Returned (p8\<lparr>class_weights_' := []\<rparr>, m(''class_weights_'' \<mapsto> []))
        | Some ws \<Rightarrow> Returned (p8\<lparr>class_weights_' := ws\<rparr>, m)))))))))"

section \<open>Value_Chooser\<close>

text \<open>
  \<open>RF_DEFAULT\<close> is a class without members: it has one value, which \<open>rf_default()\<close>
  returns. The primary template of \<open>Value_Chooser\<close> and its specialisation for
  \<open>RF_DEFAULT\<close> are two functions; which one a call uses is decided by the type of its
  first argument. A reference is modelled by the value it refers to.
\<close>

datatype RF_DEFAULT = RF_DEFAULT

definition rf_default :: RF_DEFAULT where
  "rf_default = RF_DEFAULT"

definition Value_Chooser_choose :: "'T \<Rightarrow> 'C \<Rightarrow> 'T" where
  "Value_Chooser_choose t c = t"

definition Value_Chooser_RF_DEFAULT_choose :: "RF_DEFAULT \<Rightarrow> 'C \<Rightarrow> 'C" where
  "Value_Chooser_RF_DEFAULT_choose t c = c"

section \<open>copyImage and copyImageIf\<close>

text \<open>
  An image iterator is a position \<open>(x, y)\<close>. The accessors are parameters: \<open>sa\<close> and
  \<open>ma\<close> read the memory \<open>s\<close> at an iterator, \<open>da\<close> is \<open>DestAccessor::set\<close> and changes
  the memory at an iterator, \<open>cast\<close> is the conversion to \<open>DestAccessor::value_type\<close>.
  Source, mask and destination live in the same memory, so they may overlap. The
  counters \<open>x\<close> and \<open>y\<close> stay below \<open>w\<close> and \<open>h\<close> and cannot overflow.
\<close>

type_synonym ImageIterator = "int \<times> int"

definition inc_x :: "ImageIterator \<Rightarrow> ImageIterator" where
  "inc_x i = (fst i + 1, snd i)"

definition inc_y :: "ImageIterator \<Rightarrow> ImageIterator" where
  "inc_y i = (fst i, snd i + 1)"

function copyImage_row ::
  "('s \<Rightarrow> ImageIterator \<Rightarrow> 'a) \<Rightarrow> ('a \<Rightarrow> 'b) \<Rightarrow> ('b \<Rightarrow> ImageIterator \<Rightarrow> 's \<Rightarrow> 's)
   \<Rightarrow> int \<Rightarrow> int \<Rightarrow> ImageIterator \<Rightarrow> ImageIterator \<Rightarrow> 's \<Rightarrow> 's" where
  "copyImage_row sa cast da x w six dix s =
     (if x < w
      then copyImage_row sa cast da (x + 1) w (inc_x six) (inc_x dix)
             (da (cast (sa s six)) dix s)
      else s)"
  by pat_completeness auto
termination
  by (relation "measure (\<lambda>(sa, cast, da, x, w, six, dix, s). nat (w - x))") auto

function copyImage_rows ::
  "('s \<Rightarrow> ImageIterator \<Rightarrow> 'a) \<Rightarrow> ('a \<Rightarrow> 'b) \<Rightarrow> ('b \<Rightarrow> ImageIterator \<Rightarrow> 's \<Rightarrow> 's)
   \<Rightarrow> int \<Rightarrow> int \<Rightarrow> int \<Rightarrow> ImageIterator \<Rightarrow> ImageIterator \<Rightarrow> 's \<Rightarrow> 's" where
  "copyImage_rows sa cast da y h w src_upperleft dest_upperleft s =
     (if y < h
      then copyImage_rows sa cast da (y + 1) h w (inc_y src_upperleft) (inc_y dest_upperleft)
             (copyImage_row sa cast da 0 w src_upperleft dest_upperleft s)
      else s)"
  by pat_completeness auto
termination
  by (relation "measure (\<lambda>(sa, cast, da, y, h, w, su, du, s). nat (h - y))") auto

definition copyImage ::
  "ImageIterator \<Rightarrow> ImageIterator \<Rightarrow> ('s \<Rightarrow> ImageIterator \<Rightarrow> 'a)
   \<Rightarrow> ImageIterator \<Rightarrow> ('b \<Rightarrow> ImageIterator \<Rightarrow> 's \<Rightarrow> 's) \<Rightarrow> ('a \<Rightarrow> 'b) \<Rightarrow> 's \<Rightarrow> 's" where
  "copyImage src_upperleft src_lowerright sa dest_upperleft da cast s =
     (let w = fst src_lowerright - fst src_upperleft;
          h = snd src_lowerright - snd src_upperleft
      in copyImage_rows sa cast da 0 h w src_upperleft dest_upperleft s)"

function copyImageIf_row ::
  "('s \<Rightarrow> ImageIterator \<Rightarrow> 'a) \<Rightarrow> ('s \<Rightarrow> ImageIterator \<Rightarrow> bool) \<Rightarrow> ('a \<Rightarrow> 'b)
   \<Rightarrow> ('b \<Rightarrow> ImageIterator \<Rightarrow> 's \<Rightarrow> 's)
   \<Rightarrow> int \<Rightarrow> int \<Rightarrow> ImageIterator \<Rightarrow> ImageIterator \<Rightarrow> ImageIterator \<Rightarrow> 's \<Rightarrow> 's" where
  "copyImageIf_row sa ma cast da x w six mx dix s =
     (if x < w
      then copyImageIf_row sa ma cast da (x + 1) w (inc_x six) (inc_x mx) (inc_x dix)
             (if ma s mx then da (cast (sa s six)) dix s else s)
      else s)"
  by pat_completeness auto
termination
  by (relation "measure (\<lambda>(sa, ma, cast, da, x, w, six, mx, dix, s). nat (w - x))") auto

function copyImageIf_rows ::
  "('s \<Rightarrow> ImageIterator \<Rightarrow> 'a) \<Rightarrow> ('s \<Rightarrow> ImageIterator \<Rightarrow> bool) \<Rightarrow> ('a \<Rightarrow> 'b)
   \<Rightarrow> ('b \<Rightarrow> ImageIterator \<Rightarrow> 's \<Rightarrow> 's)
   \<Rightarrow> int \<Rightarrow> int \<Rightarrow> int \<Rightarrow> ImageIterator \<Rightarrow> ImageIterator \<Rightarrow> ImageIterator \<Rightarrow> 's \<Rightarrow> 's" where
  "copyImageIf_rows sa ma cast da y h w src_upperleft mask_upperleft dest_upperleft s =
     (if y < h
      then copyImageIf_rows sa ma cast da (y + 1) h w
             (inc_y src_upperleft) (inc_y mask_upperleft) (inc_y dest_upperleft)
             (copyImageIf_row sa ma cast da 0 w src_upperleft mask_upperleft dest_upperleft s)
      else s)"
  by pat_completeness auto
termination
  by (relation "measure (\<lambda>(sa, ma, cast, da, y, h, w, su, mu, du, s). nat (h - y))") auto

definition copyImageIf ::
  "ImageIterator \<Rightarrow> ImageIterator \<Rightarrow> ('s \<Rightarrow> ImageIterator \<Rightarrow> 'a)
   \<Rightarrow> ImageIterator \<Rightarrow> ('s \<Rightarrow> ImageIterator \<Rightarrow> bool)
   \<Rightarrow> ImageIterator \<Rightarrow> ('b \<Rightarrow> ImageIterator \<Rightarrow> 's \<Rightarrow> 's) \<Rightarrow> ('a \<Rightarrow> 'b) \<Rightarrow> 's \<Rightarrow> 's" where
  "copyImageIf src_upperleft src_lowerright sa mask_upperleft ma dest_upperleft da cast s =
     (let w = fst src_lowerright - fst src_upperleft;
          h = snd src_lowerright - snd src_upperleft
      in copyImageIf_rows sa ma cast da 0 h w src_upperleft mask_upperleft dest_upperleft s)"

declare copyImage_row.simps [simp del] copyImage_rows.simps [simp del]
  copyImageIf_row.simps [simp del] copyImageIf_rows.simps [simp del]

text \<open>
  The contract of the specification, in its words: the positions of a \<open>w\<close> by \<open>h\<close>
  domain in row-major order, and the visit of one position (offsets from the three
  upper left corners).
\<close>

definition row_major :: "int \<Rightarrow> int \<Rightarrow> (int \<times> int) list" where
  "row_major w h = concat (map (\<lambda>y. map (\<lambda>x. (x, y)) [0..w - 1]) [0..h - 1])"

definition at_offset :: "ImageIterator \<Rightarrow> int \<times> int \<Rightarrow> ImageIterator" where
  "at_offset i d = (fst i + fst d, snd i + snd d)"

definition visit_copy ::
  "ImageIterator \<Rightarrow> ('s \<Rightarrow> ImageIterator \<Rightarrow> 'a) \<Rightarrow> ImageIterator
   \<Rightarrow> ('b \<Rightarrow> ImageIterator \<Rightarrow> 's \<Rightarrow> 's) \<Rightarrow> ('a \<Rightarrow> 'b) \<Rightarrow> int \<times> int \<Rightarrow> 's \<Rightarrow> 's" where
  "visit_copy src_upperleft sa dest_upperleft da cast d s =
     da (cast (sa s (at_offset src_upperleft d))) (at_offset dest_upperleft d) s"

definition visit_copy_if ::
  "ImageIterator \<Rightarrow> ('s \<Rightarrow> ImageIterator \<Rightarrow> 'a) \<Rightarrow> ImageIterator
   \<Rightarrow> ('s \<Rightarrow> ImageIterator \<Rightarrow> bool) \<Rightarrow> ImageIterator
   \<Rightarrow> ('b \<Rightarrow> ImageIterator \<Rightarrow> 's \<Rightarrow> 's) \<Rightarrow> ('a \<Rightarrow> 'b) \<Rightarrow> int \<times> int \<Rightarrow> 's \<Rightarrow> 's" where
  "visit_copy_if src_upperleft sa mask_upperleft ma dest_upperleft da cast d s =
     (if ma s (at_offset mask_upperleft d)
      then da (cast (sa s (at_offset src_upperleft d))) (at_offset dest_upperleft d) s
      else s)"

definition row_major_before :: "int \<times> int \<Rightarrow> int \<times> int \<Rightarrow> bool" where
  "row_major_before a b = (snd a < snd b \<or> (snd a = snd b \<and> fst a < fst b))"

section \<open>Notions used by the properties\<close>

text \<open>
  \<open>final_state\<close> is the state in which a call leaves its object, by return or by
  exception.
\<close>

fun final_state :: "'a outcome \<Rightarrow> 'a option" where
  "final_state (Returned a) = Some a"
| "final_state (Raised e a) = Some a"
| "final_state Undefined = None"

text \<open>
  The invariant of the class catalogs has two parts. \<open>catalogs_of oor src p\<close>: the ten
  catalogs are the conversions of one sequence \<open>src\<close> of labels, so they are equally long
  and position \<open>i\<close> is the same class in each. \<open>catalog_invariant p\<close>: the length of each
  catalog is \<open>class_count_\<close>.
\<close>

definition catalogs_of :: "out_of_range \<Rightarrow> numv list \<Rightarrow> ProblemSpec \<Rightarrow> bool" where
  "catalogs_of oor src p =
     (UInt8_classes_' p = map (to_word oor False) src
      \<and> UInt16_classes_' p = map (to_word oor False) src
      \<and> UInt32_classes_' p = map (to_word oor False) src
      \<and> UInt64_classes_' p = map (to_word oor False) src
      \<and> Int8_classes_' p = map (to_word oor True) src
      \<and> Int16_classes_' p = map (to_word oor True) src
      \<and> Int32_classes_' p = map (to_word oor True) src
      \<and> Int64_classes_' p = map (to_word oor True) src
      \<and> double_classes_' p = map to_double src
      \<and> float_classes_' p = map to_float src)"

definition catalog_invariant :: "ProblemSpec \<Rightarrow> bool" where
  "catalog_invariant p =
     (int (length (UInt8_classes_' p)) = sint (class_count_' p)
      \<and> int (length (UInt16_classes_' p)) = sint (class_count_' p)
      \<and> int (length (UInt32_classes_' p)) = sint (class_count_' p)
      \<and> int (length (UInt64_classes_' p)) = sint (class_count_' p)
      \<and> int (length (Int8_classes_' p)) = sint (class_count_' p)
      \<and> int (length (Int16_classes_' p)) = sint (class_count_' p)
      \<and> int (length (Int32_classes_' p)) = sint (class_count_' p)
      \<and> int (length (Int64_classes_' p)) = sint (class_count_' p)
      \<and> int (length (double_classes_' p)) = sint (class_count_' p)
      \<and> int (length (float_classes_' p)) = sint (class_count_' p))"



text \<open>A map with every key that \<open>make_from_map\<close> reads, as \<open>make_map\<close> writes it.\<close>

definition example_map :: "string \<rightharpoonup> double list" where
  "example_map =
     map_of [ (''column_count_'', [Fin 4]), (''class_count_'', [Fin 2]),
              (''row_count_'', [Fin 9]), (''actual_mtry_'', [Fin 2]),
              (''actual_msample_'', [Fin 3]), (''problem_type_'', [Fin 1]),
              (''class_type_'', [Fin 6]), (''is_weighted'', [Fin 0]),
              (''class_weights_'', []) ]"

section \<open>Arithmetic of the machine integers\<close>

lemma sint_lower32: "- 2147483648 \<le> sint (x :: cint)"
proof -
  have "- (2 ^ (LENGTH(32) - 1)) \<le> sint x" by (rule sint_ge)
  then show ?thesis by simp
qed

lemma sint_upper32: "sint (x :: cint) \<le> 2147483647"
proof -
  have "sint x < 2 ^ (LENGTH(32) - 1)" by (rule sint_lt)
  then show ?thesis by simp
qed

lemma uint_widen:
  fixes x :: cint
  assumes "0 \<le> sint x"
  shows "uint (signed x :: size_t) = sint x"
proof -
  have "sint x < 2 ^ LENGTH(64)" using sint_upper32 [of x] by simp
  then have "take_bit LENGTH(64) (sint x) = sint x"
    using assms by (simp only: take_bit_int_eq_self)
  moreover have "(signed x :: size_t) = word_of_int (sint x)"
    by (rule scast_eq)
  ultimately show ?thesis
    by (simp only: uint_word_of_int_eq)
qed

lemma sint_8_plus:
  fixes c :: cint
  assumes "0 \<le> sint c" "8 + sint c \<le> 2147483647"
  shows "sint (8 + c) = 8 + sint c"
  using assms by (simp add: sint_word_ariths signed_take_bit_int_eq_self)

lemma sint_8_plus_twice:
  fixes c :: cint
  assumes "0 \<le> sint c" "8 + 2 * sint c \<le> 2147483647"
  shows "sint (8 + c * 2) = 8 + 2 * sint c"
  using assms by (simp add: sint_word_ariths signed_take_bit_int_eq_self)

lemma sint_8_plus_any:
  fixes c :: cint
  assumes "8 + sint c \<le> 2147483647"
  shows "sint (8 + c) = 8 + sint c"
proof -
  have "- 2147483648 \<le> 8 + sint c" using sint_lower32 [of c] by linarith
  then show ?thesis
    using assms by (simp add: sint_word_ariths signed_take_bit_int_eq_self)
qed

lemma sint_8_plus_twice_any:
  fixes c :: cint
  assumes "- 2147483648 \<le> 2 * sint c" "8 + 2 * sint c \<le> 2147483647"
  shows "sint (8 + 2 * c) = 8 + 2 * sint c"
  using assms by (simp add: sint_word_ariths signed_take_bit_int_eq_self)

lemma sint_of_nat32:
  assumes "n < 2147483648"
  shows "sint (of_nat n :: cint) = int n"
  using assms
  by (simp add: signed_of_nat signed_take_bit_int_eq_self)

lemma mod_window:
  fixes a b M :: int
  assumes "a mod M = b mod M" "0 \<le> a" "a < M" "8 \<le> a" "0 \<le> b" "b < M + 8"
  shows "a = b"
proof (cases "b < M")
  case True
  have "a mod M = a" using assms(2,3) by (rule mod_pos_pos_trivial)
  moreover have "b mod M = b" using assms(5) True by (rule mod_pos_pos_trivial)
  ultimately show ?thesis using assms(1) by linarith
next
  case False
  have am: "a mod M = a" using assms(2,3) by (rule mod_pos_pos_trivial)
  have "0 \<le> b - M" using False by linarith
  moreover have "b - M < M" using assms(6) assms(3) assms(4) by linarith
  ultimately have "(b - M) mod M = b - M" by (rule mod_pos_pos_trivial)
  moreover have "(b - M) mod M = b mod M" by (rule minus_mod_self2)
  ultimately have "a = b - M" using assms(1) am by linarith
  then show ?thesis using assms(4) assms(6) by linarith
qed

lemma weighted_length_exact:
  fixes k :: cint
  assumes "0 \<le> sint k" "8 + sint k \<le> len" "len = sint (8 + 2 * k)"
  shows "len = 8 + 2 * sint k"
proof -
  have M: "(2::int) ^ LENGTH(32) = 4294967296" by simp
  have "(word_of_int (sint (8 + 2 * k)) :: cint) = word_of_int (8 + 2 * sint k)"
    by simp
  then have "take_bit LENGTH(32) (sint (8 + 2 * k)) = take_bit LENGTH(32) (8 + 2 * sint k)"
    by (rule word_of_int_eq_iff [THEN iffD1])
  then have "sint (8 + 2 * k) mod 2 ^ LENGTH(32) = (8 + 2 * sint k) mod 2 ^ LENGTH(32)"
    by (simp only: take_bit_eq_mod)
  then have m: "sint (8 + 2 * k) mod 4294967296 = (8 + 2 * sint k) mod 4294967296"
    by (simp only: M)
  have u: "sint (8 + 2 * k) \<le> 2147483647" by (rule sint_upper32)
  have v: "sint k \<le> 2147483647" by (rule sint_upper32)
  have "sint (8 + 2 * k) = 8 + 2 * sint k"
  proof (rule mod_window [OF m])
    show "0 \<le> sint (8 + 2 * k)" using assms by linarith
    show "sint (8 + 2 * k) < 4294967296" using u by linarith
    show "8 \<le> sint (8 + 2 * k)" using assms by linarith
    show "0 \<le> 8 + 2 * sint k" using assms by linarith
    show "8 + 2 * sint k < 4294967296 + 8" using v by linarith
  qed
  then show ?thesis using assms(3) by linarith
qed

section \<open>Conversions, loops and array access\<close>

lemma trunc_of_int: "trunc_toward_zero (of_int k) = k"
  by (simp add: trunc_toward_zero_def)

lemma fits_sint: "fits 32 True (sint (i :: cint))"
  using sint_lower32 [of i] sint_upper32 [of i] by (simp add: fits_def)

lemma fits_uint: "fits 32 False (uint (w :: UInt32))"
proof -
  have "uint w < 2 ^ LENGTH(32)" by (rule uint_bounded)
  then show ?thesis by (simp add: fits_def)
qed

lemma int_of_double_of_int: "int_of_double oor (double_of_int i) = i"
proof -
  have "int_of_double oor (double_of_int i)
          = (if fits 32 True (trunc_toward_zero (of_int (sint i)))
             then word_of_int (trunc_toward_zero (of_int (sint i)))
             else word_of_int (oor 32 True (Fin (of_int (sint i)))))"
    by (simp only: int_of_double_def double_of_int_def to_word.simps len_bit0 len_num1
          mult_1_right numeral_times_numeral semiring_norm)
  also have "\<dots> = word_of_int (sint i)"
    by (simp only: trunc_of_int fits_sint if_True)
  also have "\<dots> = i"
    by simp
  finally show ?thesis .
qed

lemma unsigned_of_double_of_unsigned: "unsigned_of_double oor (double_of_unsigned w) = w"
proof -
  have "unsigned_of_double oor (double_of_unsigned w)
          = (if fits 32 False (trunc_toward_zero (of_int (uint w)))
             then word_of_int (trunc_toward_zero (of_int (uint w)))
             else word_of_int (oor 32 False (Fin (of_int (uint w)))))"
    by (simp only: unsigned_of_double_def double_of_unsigned_def to_word.simps len_bit0 len_num1
          mult_1_right numeral_times_numeral semiring_norm)
  also have "\<dots> = word_of_int (uint w)"
    by (simp only: trunc_of_int fits_uint if_True)
  also have "\<dots> = w"
    by simp
  finally show ?thesis .
qed

lemma bool_roundtrip: "bool_of_double (double_of_bool b) = b"
  by (simp add: bool_of_double_def double_of_bool_def)

lemma int_of_double_values:
  "int_of_double oor (Fin 0) = 0" "int_of_double oor (Fin 1) = 1" "int_of_double oor (Fin 2) = 2"
  "int_of_double oor (Fin 3) = 3" "int_of_double oor (Fin 4) = 4" "int_of_double oor (Fin 5) = 5"
  "int_of_double oor (Fin 6) = 6" "int_of_double oor (Fin 9) = 9"
  by (simp_all add: int_of_double_def fits_def trunc_toward_zero_def)

lemma unsigned_of_double_values:
  "unsigned_of_double oor (Fin 0) = 0" "unsigned_of_double oor (Fin 1) = 1"
  "unsigned_of_double oor (Fin 3) = 3" "unsigned_of_double oor (Fin 6) = 6"
  "unsigned_of_double oor (Fin 8) = 8" "unsigned_of_double oor (Fin 11) = 11"
  by (simp_all add: unsigned_of_double_def fits_def trunc_toward_zero_def)

lemma double_eq_self: "double_eq a a = (a \<noteq> NaN)"
  by (simp add: double_eq_def)

lemma RF_LOG_not_stratification: "RF_LOG \<notin> {RF_EQUAL, RF_PROPORTIONAL, RF_EXTERNAL, RF_NONE}"
  by (simp add: RF_LOG_def RF_EQUAL_def RF_PROPORTIONAL_def RF_EXTERNAL_def RF_NONE_def)

lemma PUSH_all_11:
  assumes "length buf = 11"
  shows "PUSH_all [v0, v1, v2, v3, v4, v5, v6, v7, v8, v9, v10] (0, buf)
           = Some (11, [v0, v1, v2, v3, v4, v5, v6, v7, v8, v9, v10])"
proof -
  obtain b0 b1 b2 b3 b4 b5 b6 b7 b8 b9 b10 where "buf = [b0, b1, b2, b3, b4, b5, b6, b7, b8, b9, b10]"
    using assms by (auto simp: length_Suc_conv eval_nat_numeral)
  then show ?thesis by simp
qed

lemma classes_loop_eq:
  "classes_loop oor vs p =
     p\<lparr> UInt8_classes_' := UInt8_classes_' p @ map (to_word oor False) vs,
        UInt16_classes_' := UInt16_classes_' p @ map (to_word oor False) vs,
        UInt32_classes_' := UInt32_classes_' p @ map (to_word oor False) vs,
        UInt64_classes_' := UInt64_classes_' p @ map (to_word oor False) vs,
        Int8_classes_' := Int8_classes_' p @ map (to_word oor True) vs,
        Int16_classes_' := Int16_classes_' p @ map (to_word oor True) vs,
        Int32_classes_' := Int32_classes_' p @ map (to_word oor True) vs,
        Int64_classes_' := Int64_classes_' p @ map (to_word oor True) vs,
        double_classes_' := double_classes_' p @ map to_double vs,
        float_classes_' := float_classes_' p @ map to_float vs \<rparr>"
  by (induction vs arbitrary: p) (simp_all add: push_back_class_def)

lemma class_weights_loop_eq:
  "class_weights_loop ws p = p\<lparr>class_weights_' := class_weights_' p @ ws\<rparr>"
  by (induction ws arbitrary: p) simp_all

lemma ArrayVector_index_inside:
  assumes "0 \<le> sint i \<and> sint i < int (length xs)"
  shows "ArrayVector_index bp xs i out = Returned (xs ! nat (sint i))"
  using assms by (simp add: ArrayVector_index_def)

lemma ArrayVector_index_outside:
  assumes "\<not> (0 \<le> sint i \<and> sint i < int (length xs))"
  shows "ArrayVector_index bp xs i out
           = (case bp of Unchecked \<Rightarrow> Undefined | Checked e \<Rightarrow> Raised e out)"
  using assms by (simp only: ArrayVector_index_def if_False)

lemmas to_classlabel_defs =
  to_classlabel_UInt8_def to_classlabel_UInt16_def to_classlabel_UInt32_def
  to_classlabel_UInt64_def to_classlabel_Int8_def to_classlabel_Int16_def
  to_classlabel_Int32_def to_classlabel_Int64_def to_classlabel_double_def
  to_classlabel_float_def

lemma make_from_map_example:
  "make_from_map oor example_map p
     = Returned (p\<lparr> column_count_' := 4, class_count_' := 2, row_count_' := 9,
                    actual_mtry_' := 2, actual_msample_' := 3,
                    problem_type_' := CLASSIFICATION, class_type_' := Int32_t,
                    is_weighted := False, class_weights_' := [] \<rparr>, example_map)"
  by (simp add: make_from_map_def PULL_map_def example_map_def int_of_double_values
        unsigned_of_double_values bool_of_double_def CLASSIFICATION_def Int32_t_def)

section \<open>The length checks of serialize and unserialize\<close>

lemma options_wrong_length:
  assumes "int (length buf) \<noteq> 11"
  shows "RandomForestOptions_unserialize oor buf opt = Raised PreconditionViolation opt
      \<and> RandomForestOptions_serialize opt buf = Raised PreconditionViolation buf"
  using assms
  by (simp add: RandomForestOptions_unserialize_def RandomForestOptions_serialize_def
        vigra_precondition_def)

lemma serialize_wrong_length:
  assumes "word_of_nat (length buf) \<noteq> serialized_size p"
  shows "ProblemSpec_serialize p buf = Raised PreconditionViolation buf"
  using assms by (simp add: ProblemSpec_serialize_def vigra_precondition_def)

lemma unserialize_short:
  assumes "length buf < 8"
  shows "ProblemSpec_unserialize oor buf p = Raised PreconditionViolation p"
  using assms by (simp add: ProblemSpec_unserialize_def vigra_precondition_def)

lemma unserialize_second_check:
  assumes "8 \<le> length buf" "8 + sint (int_of_double oor (buf ! 1)) \<le> 2147483647"
    "int (length buf) < 8 + sint (int_of_double oor (buf ! 1))"
  shows "ProblemSpec_unserialize oor buf p =
        Raised PreconditionViolation
          (p\<lparr>column_count_' := int_of_double oor (buf ! 0),
             class_count_' := int_of_double oor (buf ! 1)\<rparr>)"
proof -
  have s: "sint (8 + int_of_double oor (buf ! 1)) = 8 + sint (int_of_double oor (buf ! 1))"
    using assms(2) by (rule sint_8_plus_any)
  show ?thesis
    using assms(1,3) by (simp add: ProblemSpec_unserialize_def vigra_precondition_def Let_def s [unfolded One_nat_def])
qed

lemma unserialize_third_check:
  assumes "8 \<le> length buf"
    "- 2147483648 \<le> 2 * sint (int_of_double oor (buf ! 1))"
    "8 + 2 * sint (int_of_double oor (buf ! 1)) \<le> 2147483647"
    "8 + sint (int_of_double oor (buf ! 1)) \<le> int (length buf)"
    "bool_of_double (buf ! 7)"
    "int (length buf) \<noteq> 8 + 2 * sint (int_of_double oor (buf ! 1))"
  shows "ProblemSpec_unserialize oor buf p =
        Raised PreconditionViolation
          (p\<lparr>column_count_' := int_of_double oor (buf ! 0),
             class_count_' := int_of_double oor (buf ! 1),
             row_count_' := int_of_double oor (buf ! 2),
             actual_mtry_' := int_of_double oor (buf ! 3),
             actual_msample_' := int_of_double oor (buf ! 4),
             problem_type_' := Problem_t (unsigned_of_double oor (buf ! 5)),
             class_type_' := Types_t (unsigned_of_double oor (buf ! 6)),
             is_weighted := True\<rparr>)"
proof -
  let ?k = "int_of_double oor (buf ! 1)"
  have "8 + sint ?k \<le> 2147483647"
    using assms(2,3) by linarith
  then have s1: "sint (8 + ?k) = 8 + sint ?k"
    by (rule sint_8_plus_any)
  have s2: "sint (8 + 2 * ?k) = 8 + 2 * sint ?k"
    using assms(2,3) by (rule sint_8_plus_twice_any)
  show ?thesis
    using assms(1,4,5,6)
    by (simp add: ProblemSpec_unserialize_def vigra_precondition_def Let_def s1 [unfolded One_nat_def] s2 [unfolded One_nat_def])
qed

lemma unserialize_unweighted_accepts:
  assumes "8 \<le> length buf" "8 + sint (int_of_double oor (buf ! 1)) \<le> 2147483647"
    "8 + sint (int_of_double oor (buf ! 1)) \<le> int (length buf)"
    "\<not> bool_of_double (buf ! 7)"
  shows "ProblemSpec_unserialize oor buf p =
        Returned (insert_classes oor (drop 8 buf)
          (p\<lparr>column_count_' := int_of_double oor (buf ! 0),
             class_count_' := int_of_double oor (buf ! 1),
             row_count_' := int_of_double oor (buf ! 2),
             actual_mtry_' := int_of_double oor (buf ! 3),
             actual_msample_' := int_of_double oor (buf ! 4),
             problem_type_' := Problem_t (unsigned_of_double oor (buf ! 5)),
             class_type_' := Types_t (unsigned_of_double oor (buf ! 6)),
             is_weighted := False\<rparr>))"
proof -
  have s: "sint (8 + int_of_double oor (buf ! 1)) = 8 + sint (int_of_double oor (buf ! 1))"
    using assms(2) by (rule sint_8_plus_any)
  show ?thesis
    using assms(1,3,4) by (simp add: ProblemSpec_unserialize_def vigra_precondition_def Let_def s [unfolded One_nat_def])
qed

lemma unserialize_Raised:
  assumes "ProblemSpec_unserialize oor buf p = Raised e p'"
  shows "e = PreconditionViolation
         \<and> UInt8_classes_' p' = UInt8_classes_' p
         \<and> UInt16_classes_' p' = UInt16_classes_' p
         \<and> UInt32_classes_' p' = UInt32_classes_' p
         \<and> UInt64_classes_' p' = UInt64_classes_' p
         \<and> Int8_classes_' p' = Int8_classes_' p
         \<and> Int16_classes_' p' = Int16_classes_' p
         \<and> Int32_classes_' p' = Int32_classes_' p
         \<and> Int64_classes_' p' = Int64_classes_' p
         \<and> double_classes_' p' = double_classes_' p
         \<and> float_classes_' p' = float_classes_' p
         \<and> class_weights_' p' = class_weights_' p"
  using assms
  by (auto simp: ProblemSpec_unserialize_def vigra_precondition_def Let_def split: if_splits)

section \<open>The class catalogs\<close>

lemma catalogs_of_classes:
  assumes "catalogs_of oor src p"
  shows "catalogs_of oor (src @ label_values ls) (classes_' oor ls p)"
  using assms by (simp add: catalogs_of_def classes_'_def classes_loop_eq)

lemma catalogs_of_insert_classes:
  assumes "catalogs_of oor src p"
  shows "catalogs_of oor (src @ map FpV ds) (insert_classes oor ds p)"
  using assms by (simp add: catalogs_of_def insert_classes_def comp_def)

lemma catalogs_of_scalars:
  "catalogs_of oor src (column_count n p) = catalogs_of oor src p"
  "catalogs_of oor src (class_weights ws p) = catalogs_of oor src p"
  by (simp_all add: catalogs_of_def column_count_def class_weights_def class_weights_loop_eq)

lemma catalogs_of_unserialize_Returned:
  assumes "catalogs_of oor src p" "ProblemSpec_unserialize oor buf p = Returned p'"
  shows "catalogs_of oor
           (src @ map FpV (drop (8 + (if is_weighted p' then nat (sint (class_count_' p')) else 0)) buf))
           p'"
proof -
  have w: "catalogs_of oor src q \<Longrightarrow> catalogs_of oor src (q\<lparr>class_weights_' := x\<rparr>)" for q x
    by (simp add: catalogs_of_def)
  have i: "is_weighted (insert_classes oor ds q) = is_weighted q"
    "class_count_' (insert_classes oor ds q) = class_count_' q" for ds q
    by (simp_all add: insert_classes_def)
  have c: "catalogs_of oor src
      (p\<lparr>column_count_' := a, class_count_' := b, row_count_' := c, actual_mtry_' := d,
         actual_msample_' := e, problem_type_' := f, class_type_' := g, is_weighted := h\<rparr>)"
    for a b c d e f g h
    using assms(1) by (simp add: catalogs_of_def)
  show ?thesis
    using assms(2)
    by (auto simp: ProblemSpec_unserialize_def vigra_precondition_def Let_def i
          split: if_splits
          intro!: catalogs_of_insert_classes w c)
qed

lemma catalogs_of_unserialize_Raised:
  assumes "catalogs_of oor src p" "ProblemSpec_unserialize oor buf p = Raised e p'"
  shows "catalogs_of oor src p'"
  using assms(1) unserialize_Raised [OF assms(2)] by (simp add: catalogs_of_def)

lemma catalogs_of_make_from_map:
  assumes "catalogs_of oor src p" "final_state (make_from_map oor m p) = Some (p', m')"
  shows "catalogs_of oor src p'"
  using assms
  by (auto simp: make_from_map_def PULL_map_def Let_def catalogs_of_def
        split: if_splits option.splits list.splits)

lemma clear_invariant: "catalogs_of oor [] (clear p) \<and> catalog_invariant (clear p)"
  by (simp add: catalogs_of_def catalog_invariant_def clear_def)

lemma catalog_invariant_scalars:
  "catalog_invariant (column_count n p) = catalog_invariant p"
  "catalog_invariant (class_weights ws p) = catalog_invariant p"
  by (simp_all add: catalog_invariant_def column_count_def class_weights_def class_weights_loop_eq)

lemma catalog_invariant_classes:
  assumes "catalogs_of oor [] p" "length (label_values ls) < 2147483648"
  shows "catalog_invariant (classes_' oor ls p)"
proof -
  have c: "catalogs_of oor (label_values ls) (classes_' oor ls p)"
    using catalogs_of_classes [OF assms(1), of ls] by simp
  have n: "sint (class_count_' (classes_' oor ls p)) = int (length (label_values ls))"
    using assms(2) by (simp add: classes_'_def sint_of_nat32)
  show ?thesis using c n by (simp add: catalog_invariant_def catalogs_of_def)
qed

lemma unserialize_Returned_lengths:
  assumes "ProblemSpec_unserialize oor buf p = Returned p'"
  shows "8 \<le> length buf"
    and "is_weighted p' \<Longrightarrow> int (length buf) = sint (8 + 2 * class_count_' p')"
    and "is_weighted p' \<Longrightarrow> 0 \<le> sint (class_count_' p')"
    and "is_weighted p' \<Longrightarrow> 8 + sint (class_count_' p') \<le> int (length buf)"
proof -
  have i: "is_weighted (insert_classes oor ds q) = is_weighted q"
    "class_count_' (insert_classes oor ds q) = class_count_' q" for ds q
    by (simp_all add: insert_classes_def)
  show "8 \<le> length buf"
    using assms
    by (auto simp: ProblemSpec_unserialize_def vigra_precondition_def split: if_splits)
  show "int (length buf) = sint (8 + 2 * class_count_' p')" if "is_weighted p'"
    using assms that
    by (auto simp: ProblemSpec_unserialize_def vigra_precondition_def Let_def i
          split: if_splits)
  show "0 \<le> sint (class_count_' p')" if "is_weighted p'"
    using assms that
    by (auto simp: ProblemSpec_unserialize_def vigra_precondition_def Let_def i
          split: if_splits)
  show "8 + sint (class_count_' p') \<le> int (length buf)" if "is_weighted p'"
    using assms that
    by (auto simp: ProblemSpec_unserialize_def vigra_precondition_def Let_def i
          split: if_splits)
qed

lemma catalog_invariant_unserialize:
  assumes "catalogs_of oor [] p" "ProblemSpec_unserialize oor buf p = Returned p'"
    and "is_weighted p' \<or> int (length buf) = 8 + sint (class_count_' p')"
  shows "catalog_invariant p'"
proof -
  let ?d = "8 + (if is_weighted p' then nat (sint (class_count_' p')) else 0)"
  have c: "catalogs_of oor (map FpV (drop ?d buf)) p'"
    using catalogs_of_unserialize_Returned [OF assms(1) assms(2)] by simp
  have l8: "8 \<le> length buf" by (rule unserialize_Returned_lengths(1) [OF assms(2)])
  have n: "int (length buf - ?d) = sint (class_count_' p')"
  proof (cases "is_weighted p'")
    case True
    have "int (length buf) = 8 + 2 * sint (class_count_' p')"
      using unserialize_Returned_lengths(3) [OF assms(2) True]
        unserialize_Returned_lengths(4) [OF assms(2) True]
        unserialize_Returned_lengths(2) [OF assms(2) True]
      by (rule weighted_length_exact)
    then show ?thesis
      using True unserialize_Returned_lengths(3) [OF assms(2) True] by simp
  next
    case False
    then show ?thesis using assms(3) l8 by simp
  qed
  have len: "length (drop ?d buf) = length buf - ?d" by simp
  show ?thesis
    using c n by (simp only: catalog_invariant_def catalogs_of_def length_map len)
qed

section \<open>The field used_\<close>







section \<open>The loops of copyImage and copyImageIf\<close>

lemma copyImage_row_fold:
  "copyImage_row sa cast da x w six dix s =
     fold (\<lambda>i s. da (cast (sa s (fst six - x + i, snd six))) (fst dix - x + i, snd dix) s)
       [x..w - 1] s"
proof (induction sa cast da x w six dix s rule: copyImage_row.induct)
  case (1 sa cast da x w six dix s)
  show ?case
  proof (cases "x < w")
    case True
    have u: "[x..w - 1] = x # [x + 1..w - 1]"
      using True by (simp add: upto_rec1)
    show ?thesis
      using True "1.IH" [OF True]
      by (subst copyImage_row.simps) (simp add: u inc_x_def)
  next
    case False
    then show ?thesis by (subst copyImage_row.simps) simp
  qed
qed

lemma copyImage_rows_fold:
  "copyImage_rows sa cast da y h w su du s =
     fold (\<lambda>j s. copyImage_row sa cast da 0 w (fst su, snd su - y + j) (fst du, snd du - y + j) s)
       [y..h - 1] s"
proof (induction sa cast da y h w su du s rule: copyImage_rows.induct)
  case (1 sa cast da y h w su du s)
  show ?case
  proof (cases "y < h")
    case True
    have u: "[y..h - 1] = y # [y + 1..h - 1]"
      using True by (simp add: upto_rec1)
    show ?thesis
      using True "1.IH" [OF True]
      by (subst copyImage_rows.simps) (simp add: u inc_y_def)
  next
    case False
    then show ?thesis by (subst copyImage_rows.simps) simp
  qed
qed

lemma copyImageIf_row_fold:
  "copyImageIf_row sa ma cast da x w six mx dix s =
     fold (\<lambda>i s. if ma s (fst mx - x + i, snd mx)
                  then da (cast (sa s (fst six - x + i, snd six))) (fst dix - x + i, snd dix) s
                  else s)
       [x..w - 1] s"
proof (induction sa ma cast da x w six mx dix s rule: copyImageIf_row.induct)
  case (1 sa ma cast da x w six mx dix s)
  show ?case
  proof (cases "x < w")
    case True
    have u: "[x..w - 1] = x # [x + 1..w - 1]"
      using True by (simp add: upto_rec1)
    show ?thesis
      using True "1.IH" [OF True]
      by (subst copyImageIf_row.simps) (simp add: u inc_x_def split del: if_split cong: if_cong)
  next
    case False
    then show ?thesis by (subst copyImageIf_row.simps) simp
  qed
qed

lemma copyImageIf_rows_fold:
  "copyImageIf_rows sa ma cast da y h w su mu du s =
     fold (\<lambda>j s. copyImageIf_row sa ma cast da 0 w (fst su, snd su - y + j)
                    (fst mu, snd mu - y + j) (fst du, snd du - y + j) s)
       [y..h - 1] s"
proof (induction sa ma cast da y h w su mu du s rule: copyImageIf_rows.induct)
  case (1 sa ma cast da y h w su mu du s)
  show ?case
  proof (cases "y < h")
    case True
    have u: "[y..h - 1] = y # [y + 1..h - 1]"
      using True by (simp add: upto_rec1)
    show ?thesis
      using True "1.IH" [OF True]
      by (subst copyImageIf_rows.simps) (simp add: u inc_y_def)
  next
    case False
    then show ?thesis by (subst copyImageIf_rows.simps) simp
  qed
qed

lemma fold_concat_rows: "fold f (concat xss) s = fold (fold f) xss s"
  by (induction xss arbitrary: s) simp_all

lemma fold_row_major:
  "fold f (row_major w h) s = fold (\<lambda>j. fold (\<lambda>i. f (i, j)) [0..w - 1]) [0..h - 1] s"
  by (simp add: row_major_def fold_concat_rows fold_map comp_def)

lemma visit_copy_fun:
  "visit_copy src_upperleft sa dest_upperleft da cast d =
     (\<lambda>s. da (cast (sa s (at_offset src_upperleft d))) (at_offset dest_upperleft d) s)"
  by (rule ext) (simp add: visit_copy_def)

lemma visit_copy_if_fun:
  "visit_copy_if src_upperleft sa mask_upperleft ma dest_upperleft da cast d =
     (\<lambda>s. if ma s (at_offset mask_upperleft d)
          then da (cast (sa s (at_offset src_upperleft d))) (at_offset dest_upperleft d) s
          else s)"
  by (rule ext) (simp add: visit_copy_if_def)

lemma copyImage_visits:
  "copyImage src_upperleft src_lowerright sa dest_upperleft da cast s =
     fold (visit_copy src_upperleft sa dest_upperleft da cast)
       (row_major (fst src_lowerright - fst src_upperleft) (snd src_lowerright - snd src_upperleft)) s"
  by (simp add: copyImage_def Let_def copyImage_rows_fold copyImage_row_fold fold_row_major
        visit_copy_fun at_offset_def)

lemma copyImageIf_visits:
  "copyImageIf src_upperleft src_lowerright sa mask_upperleft ma dest_upperleft da cast s =
     fold (visit_copy_if src_upperleft sa mask_upperleft ma dest_upperleft da cast)
       (row_major (fst src_lowerright - fst src_upperleft) (snd src_lowerright - snd src_upperleft)) s"
  by (simp add: copyImageIf_def Let_def copyImageIf_rows_fold copyImageIf_row_fold fold_row_major
        visit_copy_if_fun at_offset_def cong: if_cong)

lemma set_row_major: "set (row_major w h) = {0..<w} \<times> {0..<h}"
  by (auto simp: row_major_def)

lemma sorted_rows:
  assumes "sorted_wrt (<) ys"
  shows "sorted_wrt row_major_before (concat (map (\<lambda>y. map (\<lambda>x. (x, y)) [0..w - 1]) ys))"
  using assms
proof (induction ys)
  case Nil
  show ?case by simp
next
  case (Cons y ys)
  have r: "sorted_wrt row_major_before (map (\<lambda>x. (x, y)) [0..w - 1])"
    using sorted_wrt_upto [of 0 "w - 1"] by (simp add: sorted_wrt_map row_major_before_def)
  have t: "sorted_wrt row_major_before (concat (map (\<lambda>y. map (\<lambda>x. (x, y)) [0..w - 1]) ys))"
    using Cons by simp
  have c: "row_major_before a b"
    if "a \<in> set (map (\<lambda>x. (x, y)) [0..w - 1])"
      and "b \<in> set (concat (map (\<lambda>y. map (\<lambda>x. (x, y)) [0..w - 1]) ys))" for a b
    using that Cons.prems by (auto simp: row_major_before_def)
  show ?case
    using r t c by (simp add: sorted_wrt_append)
qed

lemma sorted_row_major: "sorted_wrt row_major_before (row_major w h)"
  unfolding row_major_def by (rule sorted_rows) (rule sorted_wrt_upto)

lemma sorted_wrt_distinct:
  assumes "sorted_wrt P xs" "\<And>a. \<not> P a a"
  shows "distinct xs"
  using assms by (induction xs) auto

lemma distinct_row_major: "distinct (row_major w h)"
  using sorted_row_major [of w h]
  by (rule sorted_wrt_distinct) (simp add: row_major_before_def)

lemma row_major_2_2: "row_major 2 2 = [(0, 0), (1, 0), (0, 1), (1, 1)]"
  by (simp add: row_major_def upto.simps)

section \<open>Properties of RandomForestOptions\<close>

text \<open>
  C6. \<open>use_stratification(tag)\<close>: for a tag among \<open>RF_EQUAL\<close>, \<open>RF_PROPORTIONAL\<close>,
  \<open>RF_EXTERNAL\<close> and \<open>RF_NONE\<close> the call returns the same object with
  \<open>stratification_method_\<close> set to the tag and nothing else changed; for any other tag,
  an enumerator or not, it fails with the exception of \<open>vigra_precondition\<close>,
  \<open>PreconditionViolation\<close>, and the object, so \<open>stratification_method_\<close> too, is as it
  was.
\<close>

theorem use_stratification_precondition:
  "(tag \<in> {RF_EQUAL, RF_PROPORTIONAL, RF_EXTERNAL, RF_NONE} \<longrightarrow>
      use_stratification tag opt = Returned (opt\<lparr>stratification_method_' := tag\<rparr>))
   \<and> (tag \<notin> {RF_EQUAL, RF_PROPORTIONAL, RF_EXTERNAL, RF_NONE} \<longrightarrow>
      use_stratification tag opt = Raised PreconditionViolation opt)"
  by (simp add: use_stratification_def vigra_precondition_def)

theorem use_stratification_precondition_witness:
  "RF_EQUAL \<in> {RF_EQUAL, RF_PROPORTIONAL, RF_EXTERNAL, RF_NONE}
   \<and> use_stratification RF_EQUAL RandomForestOptions_init
       = Returned (RandomForestOptions_init\<lparr>stratification_method_' := RF_EQUAL\<rparr>)
   \<and> RF_LOG \<notin> {RF_EQUAL, RF_PROPORTIONAL, RF_EXTERNAL, RF_NONE}
   \<and> use_stratification RF_LOG RandomForestOptions_init
       = Raised PreconditionViolation RandomForestOptions_init
   \<and> RF_OptionTag 12 \<notin> {RF_EQUAL, RF_PROPORTIONAL, RF_EXTERNAL, RF_NONE}
   \<and> use_stratification (RF_OptionTag 12) RandomForestOptions_init
       = Raised PreconditionViolation RandomForestOptions_init"
proof -
  have n: "RF_OptionTag 12 \<notin> {RF_EQUAL, RF_PROPORTIONAL, RF_EXTERNAL, RF_NONE}"
    by (simp add: RF_EQUAL_def RF_PROPORTIONAL_def RF_EXTERNAL_def RF_NONE_def)
  show ?thesis
    using RF_LOG_not_stratification n
      use_stratification_precondition [of RF_EQUAL RandomForestOptions_init]
      use_stratification_precondition [of RF_LOG RandomForestOptions_init]
      use_stratification_precondition [of "RF_OptionTag 12" RandomForestOptions_init]
    by simp
qed

text \<open>
  The tag \<open>RF_LOG\<close> is not among the four, and the failure of the call is not an
  \<open>InvalidArgument\<close>.
\<close>

theorem use_stratification_kind_counterexample:
  "RF_LOG \<notin> {RF_EQUAL, RF_PROPORTIONAL, RF_EXTERNAL, RF_NONE}
   \<and> use_stratification RF_LOG RandomForestOptions_init
       \<noteq> Raised InvalidArgument RandomForestOptions_init"
  using RF_LOG_not_stratification
  by (simp add: use_stratification_def vigra_precondition_def)

text \<open>
  C2. Round trip of the options. On a buffer of 11 slots \<open>serialize\<close> returns, and
  \<open>unserialize\<close> of what it wrote returns, whatever object it is called on and whatever
  the processor does with numbers out of range. Each of the nine fields of the result
  holds what the field of \<open>o\<close> holds: the eight fields that are no \<open>double\<close> are equal,
  and \<open>training_set_proportion_\<close> is the same number. Compared with \<open>==\<close>, as
  \<open>operator==\<close> of the class compares, the proportions, and so the objects, are equal
  exactly when the proportion is a number: not-a-number is not equal to itself.
\<close>

theorem options_roundtrip:
  "int (length buf0) = 11 \<longrightarrow>
     (\<exists>buf. RandomForestOptions_serialize opt buf0 = Returned buf
        \<and> length buf = 11
        \<and> (\<exists>opt2'. RandomForestOptions_unserialize oor buf opt2 = Returned opt2'
              \<and> training_set_proportion_' opt2' = training_set_proportion_' opt
              \<and> double_eq (training_set_proportion_' opt2') (training_set_proportion_' opt)
                  = (training_set_proportion_' opt \<noteq> NaN)
              \<and> training_set_size_' opt2' = training_set_size_' opt
              \<and> training_set_calc_switch_' opt2' = training_set_calc_switch_' opt
              \<and> sample_with_replacement_' opt2' = sample_with_replacement_' opt
              \<and> stratification_method_' opt2' = stratification_method_' opt
              \<and> mtry_switch_' opt2' = mtry_switch_' opt
              \<and> mtry_' opt2' = mtry_' opt
              \<and> tree_count_' opt2' = tree_count_' opt
              \<and> min_split_node_size_' opt2' = min_split_node_size_' opt
              \<and> RandomForestOptions_eq opt2' opt = (training_set_proportion_' opt \<noteq> NaN)))"
proof
  assume len: "int (length buf0) = 11"
  then have l: "length buf0 = 11" by simp
  let ?buf = "[ training_set_proportion_' opt,
            double_of_int (training_set_size_' opt),
            (if training_set_func_' opt \<noteq> None then double_of_int 1 else double_of_int 0),
            double_of_unsigned (RF_OptionTag_ord (training_set_calc_switch_' opt)),
            double_of_bool (sample_with_replacement_' opt),
            double_of_unsigned (RF_OptionTag_ord (stratification_method_' opt)),
            double_of_unsigned (RF_OptionTag_ord (mtry_switch_' opt)),
            double_of_int (mtry_' opt),
            (if mtry_func_' opt \<noteq> None then double_of_int 1 else double_of_int 0),
            double_of_int (tree_count_' opt),
            double_of_int (min_split_node_size_' opt) ]"
  let ?P = "\<lambda>opt2'. training_set_proportion_' opt2' = training_set_proportion_' opt
              \<and> double_eq (training_set_proportion_' opt2') (training_set_proportion_' opt)
                  = (training_set_proportion_' opt \<noteq> NaN)
              \<and> training_set_size_' opt2' = training_set_size_' opt
              \<and> training_set_calc_switch_' opt2' = training_set_calc_switch_' opt
              \<and> sample_with_replacement_' opt2' = sample_with_replacement_' opt
              \<and> stratification_method_' opt2' = stratification_method_' opt
              \<and> mtry_switch_' opt2' = mtry_switch_' opt
              \<and> mtry_' opt2' = mtry_' opt
              \<and> tree_count_' opt2' = tree_count_' opt
              \<and> min_split_node_size_' opt2' = min_split_node_size_' opt
              \<and> RandomForestOptions_eq opt2' opt = (training_set_proportion_' opt \<noteq> NaN)"
  have ser: "RandomForestOptions_serialize opt buf0 = Returned ?buf"
    unfolding RandomForestOptions_serialize_def vigra_precondition_def
    by (simp only: len PUSH_all_11 [OF l] option.case prod.case) simp
  have tag: "RF_OptionTag (RF_OptionTag_ord t) = t" for t
    by (cases t) simp
  have uns: "\<exists>opt2'. RandomForestOptions_unserialize oor ?buf opt2 = Returned opt2' \<and> ?P opt2'"
    by (simp add: RandomForestOptions_unserialize_def vigra_precondition_def
          Let_def int_of_double_of_int unsigned_of_double_of_unsigned bool_roundtrip tag
          RandomForestOptions_eq_def double_eq_self)
  from ser uns show "\<exists>buf. RandomForestOptions_serialize opt buf0 = Returned buf
        \<and> length buf = 11
        \<and> (\<exists>opt2'. RandomForestOptions_unserialize oor buf opt2 = Returned opt2' \<and> ?P opt2')"
    by (intro exI [of _ ?buf] conjI) simp_all
qed

theorem options_roundtrip_witness:
  "int (length ([Fin 0, Fin 0, Fin 0, Fin 0, Fin 0, Fin 0, Fin 0, Fin 0, Fin 0, Fin 0, Fin 0] :: double list)) = 11
   \<and> RandomForestOptions_serialize RandomForestOptions_init [Fin 0, Fin 0, Fin 0, Fin 0, Fin 0, Fin 0, Fin 0, Fin 0, Fin 0, Fin 0, Fin 0]
       = Returned [Fin 1, Fin 0, Fin 0, Fin 1, Fin 1, Fin 3, Fin 6, Fin 0, Fin 0, Fin 256, Fin 1]
   \<and> (\<exists>opt2'. RandomForestOptions_unserialize oor_example
         [Fin 1, Fin 0, Fin 0, Fin 1, Fin 1, Fin 3, Fin 6, Fin 0, Fin 0, Fin 256, Fin 1]
         (RandomForestOptions_init\<lparr>tree_count_' := 3\<rparr>) = Returned opt2'
       \<and> tree_count_' opt2' = 256
       \<and> RandomForestOptions_eq opt2' RandomForestOptions_init)"
proof -
  have ser: "RandomForestOptions_serialize RandomForestOptions_init [Fin 0, Fin 0, Fin 0, Fin 0, Fin 0, Fin 0, Fin 0, Fin 0, Fin 0, Fin 0, Fin 0]
       = Returned [Fin 1, Fin 0, Fin 0, Fin 1, Fin 1, Fin 3, Fin 6, Fin 0, Fin 0, Fin 256, Fin 1]"
    by (simp add: RandomForestOptions_serialize_def vigra_precondition_def
        RandomForestOptions_init_def double_of_int_def double_of_unsigned_def double_of_bool_def
        RF_PROPORTIONAL_def RF_NONE_def RF_SQRT_def)
  have n: "training_set_proportion_' RandomForestOptions_init \<noteq> NaN"
    "tree_count_' RandomForestOptions_init = 256"
    by (simp_all add: RandomForestOptions_init_def)
  from options_roundtrip [of "[Fin 0, Fin 0, Fin 0, Fin 0, Fin 0, Fin 0, Fin 0, Fin 0, Fin 0, Fin 0, Fin 0]" RandomForestOptions_init oor_example
        "RandomForestOptions_init\<lparr>tree_count_' := 3\<rparr>"]
  obtain buf opt2' where
    a: "RandomForestOptions_serialize RandomForestOptions_init [Fin 0, Fin 0, Fin 0, Fin 0, Fin 0, Fin 0, Fin 0, Fin 0, Fin 0, Fin 0, Fin 0] = Returned buf"
    and b: "RandomForestOptions_unserialize oor_example buf
              (RandomForestOptions_init\<lparr>tree_count_' := 3\<rparr>) = Returned opt2'"
    and c: "tree_count_' opt2' = tree_count_' RandomForestOptions_init"
    and d: "RandomForestOptions_eq opt2' RandomForestOptions_init
              = (training_set_proportion_' RandomForestOptions_init \<noteq> NaN)"
    by auto
  from a ser have "buf = [Fin 1, Fin 0, Fin 0, Fin 1, Fin 1, Fin 3, Fin 6, Fin 0, Fin 0, Fin 256, Fin 1]"
    by simp
  with b c d n ser show ?thesis by simp
qed

text \<open>
  \<open>samples_per_tree(double)\<close> stores its argument as it is. With not-a-number as
  proportion the round trip gives the object back, and \<open>==\<close> on the proportion, so
  \<open>operator==\<close> too, is false.
\<close>

theorem options_roundtrip_nan_counterexample:
  "RandomForestOptions_serialize (samples_per_tree_double NaN RandomForestOptions_init)
       [Fin 0, Fin 0, Fin 0, Fin 0, Fin 0, Fin 0, Fin 0, Fin 0, Fin 0, Fin 0, Fin 0]
     = Returned [NaN, Fin 0, Fin 0, Fin 1, Fin 1, Fin 3, Fin 6, Fin 0, Fin 0, Fin 256, Fin 1]
   \<and> RandomForestOptions_unserialize oor_example
         [NaN, Fin 0, Fin 0, Fin 1, Fin 1, Fin 3, Fin 6, Fin 0, Fin 0, Fin 256, Fin 1]
         RandomForestOptions_init
       = Returned (samples_per_tree_double NaN RandomForestOptions_init)
   \<and> \<not> double_eq
         (training_set_proportion_' (samples_per_tree_double NaN RandomForestOptions_init))
         (training_set_proportion_' (samples_per_tree_double NaN RandomForestOptions_init))
   \<and> \<not> RandomForestOptions_eq (samples_per_tree_double NaN RandomForestOptions_init)
         (samples_per_tree_double NaN RandomForestOptions_init)"
  by (simp add: RandomForestOptions_serialize_def RandomForestOptions_unserialize_def
        vigra_precondition_def samples_per_tree_double_def RandomForestOptions_init_def
        RandomForestOptions_eq_def double_eq_def
        double_of_int_def double_of_unsigned_def double_of_bool_def bool_of_double_def
        int_of_double_def unsigned_of_double_def fits_def trunc_toward_zero_def
        RF_PROPORTIONAL_def RF_NONE_def RF_SQRT_def)

section \<open>Properties of Value_Chooser\<close>

text \<open>
  C8. The primary template returns its first argument \<open>t\<close>, of type \<open>T\<close>, whatever the
  default \<open>c\<close> is; the specialisation for \<open>RF_DEFAULT\<close> returns the default \<open>c\<close>, of type
  \<open>C\<close>, and its result does not depend on the value of the sentinel.
\<close>

theorem Value_Chooser_selects:
  "Value_Chooser_choose (t :: 'T) (c :: 'C) = t
   \<and> Value_Chooser_RF_DEFAULT_choose rf_default (c :: 'C) = c
   \<and> (\<forall>d d'. Value_Chooser_RF_DEFAULT_choose d c = Value_Chooser_RF_DEFAULT_choose d' c)"
  by (simp add: Value_Chooser_choose_def Value_Chooser_RF_DEFAULT_choose_def)

section \<open>Properties of ProblemSpec\<close>

text \<open>
  C4. \<open>clear()\<close> is claimed to give every field the value it has after construction.
  The constructor sets \<open>row_count_\<close> to \<open>0\<close>, and \<open>clear()\<close> has no assignment to it: a
  row count of \<open>7\<close> is still \<open>7\<close> after \<open>clear()\<close>.
\<close>

theorem clear_keeps_row_count:
  "row_count_' (clear (ProblemSpec_init\<lparr>row_count_' := 7\<rparr>)) = 7
   \<and> row_count_' ProblemSpec_init = 0"
  by (simp add: clear_def ProblemSpec_init_def)

text \<open>
  C7. \<open>serialized_size()\<close> is computed in \<open>int\<close> and returned as \<open>size_t\<close>. For a class
  count that is not negative it is \<open>8 + class_count_\<close> without weights and
  \<open>8 + 2 * class_count_\<close> with weights, as long as that sum is an \<open>int\<close> (at most
  \<open>2147483647\<close>). The size of the options is always 11.
\<close>

theorem serialized_size_in_range:
  "(0 \<le> sint (class_count_' p) \<and> \<not> is_weighted p \<and> 8 + sint (class_count_' p) \<le> 2147483647
      \<longrightarrow> uint (serialized_size p) = 8 + sint (class_count_' p))
   \<and> (0 \<le> sint (class_count_' p) \<and> is_weighted p \<and> 8 + 2 * sint (class_count_' p) \<le> 2147483647
      \<longrightarrow> uint (serialized_size p) = 8 + 2 * sint (class_count_' p))
   \<and> RandomForestOptions_serialized_size opt = 11"
proof (intro conjI impI)
  assume a: "0 \<le> sint (class_count_' p) \<and> \<not> is_weighted p \<and> 8 + sint (class_count_' p) \<le> 2147483647"
  then have "sint (8 + class_count_' p) = 8 + sint (class_count_' p)"
    by (simp add: sint_8_plus)
  with a show "uint (serialized_size p) = 8 + sint (class_count_' p)"
    by (simp add: serialized_size_def uint_widen)
next
  assume a: "0 \<le> sint (class_count_' p) \<and> is_weighted p \<and> 8 + 2 * sint (class_count_' p) \<le> 2147483647"
  then have "sint (8 + class_count_' p * 2) = 8 + 2 * sint (class_count_' p)"
    by (simp add: sint_8_plus_twice)
  with a show "uint (serialized_size p) = 8 + 2 * sint (class_count_' p)"
    by (simp add: serialized_size_def uint_widen)
next
  show "RandomForestOptions_serialized_size opt = 11"
    by (simp add: RandomForestOptions_serialized_size_def)
qed

theorem serialized_size_in_range_witness:
  "0 \<le> sint (3 :: cint) \<and> 8 + 2 * sint (3 :: cint) \<le> 2147483647
   \<and> uint (serialized_size (ProblemSpec_init\<lparr>class_count_' := 3\<rparr>)) = 11
   \<and> uint (serialized_size (ProblemSpec_init\<lparr>class_count_' := 3, is_weighted := True\<rparr>)) = 14"
  using serialized_size_in_range [of "ProblemSpec_init\<lparr>class_count_' := 3\<rparr>" RandomForestOptions_init]
    serialized_size_in_range [of "ProblemSpec_init\<lparr>class_count_' := 3, is_weighted := True\<rparr>" RandomForestOptions_init]
  by (simp add: ProblemSpec_init_def)

text \<open>
  With the largest class count and no weights the sum \<open>8 + class_count_\<close> leaves the range
  of \<open>int\<close>: the size returned is not \<open>8 + class_count_\<close>.
\<close>

theorem serialized_size_overflow_counterexample:
  "0 \<le> sint (class_count_' (ProblemSpec_init\<lparr>class_count_' := 2147483647\<rparr>))
   \<and> \<not> is_weighted (ProblemSpec_init\<lparr>class_count_' := 2147483647\<rparr>)
   \<and> uint (serialized_size (ProblemSpec_init\<lparr>class_count_' := 2147483647\<rparr>))
       \<noteq> 8 + sint (class_count_' (ProblemSpec_init\<lparr>class_count_' := 2147483647\<rparr>))"
  by (simp add: serialized_size_def ProblemSpec_init_def)

text \<open>
  C5. \<open>to_classlabel(index, out)\<close> reads the catalog of its type at \<open>index\<close>; it checks
  nothing itself and does not look at \<open>class_count_\<close>. For every object and each of the
  ten overloads: with an index inside the catalog the call returns the entry at that
  index; with an index outside the catalog the outcome is that of \<open>operator[]\<close> of
  \<open>ArrayVector\<close> there, no defined behaviour when the access is unchecked, the exception
  of the container, with \<open>out\<close> as it was, when it is checked. When the catalogs have
  \<open>class_count_\<close> entries (\<open>catalog_invariant\<close>), inside the catalog means an index in
  \<open>[0, class_count_)\<close>.
\<close>

theorem to_classlabel_indexes_catalog:
  "(0 \<le> sint index \<and> sint index < int (length (UInt8_classes_' p)) \<longrightarrow>
      to_classlabel_UInt8 bp index o1 p = Returned (UInt8_classes_' p ! nat (sint index)))
   \<and> (0 \<le> sint index \<and> sint index < int (length (UInt16_classes_' p)) \<longrightarrow>
      to_classlabel_UInt16 bp index o2 p = Returned (UInt16_classes_' p ! nat (sint index)))
   \<and> (0 \<le> sint index \<and> sint index < int (length (UInt32_classes_' p)) \<longrightarrow>
      to_classlabel_UInt32 bp index o3 p = Returned (UInt32_classes_' p ! nat (sint index)))
   \<and> (0 \<le> sint index \<and> sint index < int (length (UInt64_classes_' p)) \<longrightarrow>
      to_classlabel_UInt64 bp index o4 p = Returned (UInt64_classes_' p ! nat (sint index)))
   \<and> (0 \<le> sint index \<and> sint index < int (length (Int8_classes_' p)) \<longrightarrow>
      to_classlabel_Int8 bp index o5 p = Returned (Int8_classes_' p ! nat (sint index)))
   \<and> (0 \<le> sint index \<and> sint index < int (length (Int16_classes_' p)) \<longrightarrow>
      to_classlabel_Int16 bp index o6 p = Returned (Int16_classes_' p ! nat (sint index)))
   \<and> (0 \<le> sint index \<and> sint index < int (length (Int32_classes_' p)) \<longrightarrow>
      to_classlabel_Int32 bp index o7 p = Returned (Int32_classes_' p ! nat (sint index)))
   \<and> (0 \<le> sint index \<and> sint index < int (length (Int64_classes_' p)) \<longrightarrow>
      to_classlabel_Int64 bp index o8 p = Returned (Int64_classes_' p ! nat (sint index)))
   \<and> (0 \<le> sint index \<and> sint index < int (length (double_classes_' p)) \<longrightarrow>
      to_classlabel_double bp index o9 p = Returned (double_classes_' p ! nat (sint index)))
   \<and> (0 \<le> sint index \<and> sint index < int (length (float_classes_' p)) \<longrightarrow>
      to_classlabel_float bp index o10 p = Returned (float_classes_' p ! nat (sint index)))
   \<and> (\<not> (0 \<le> sint index \<and> sint index < int (length (UInt8_classes_' p))) \<longrightarrow>
      to_classlabel_UInt8 bp index o1 p
        = (case bp of Unchecked \<Rightarrow> Undefined | Checked e \<Rightarrow> Raised e o1))
   \<and> (\<not> (0 \<le> sint index \<and> sint index < int (length (UInt16_classes_' p))) \<longrightarrow>
      to_classlabel_UInt16 bp index o2 p
        = (case bp of Unchecked \<Rightarrow> Undefined | Checked e \<Rightarrow> Raised e o2))
   \<and> (\<not> (0 \<le> sint index \<and> sint index < int (length (UInt32_classes_' p))) \<longrightarrow>
      to_classlabel_UInt32 bp index o3 p
        = (case bp of Unchecked \<Rightarrow> Undefined | Checked e \<Rightarrow> Raised e o3))
   \<and> (\<not> (0 \<le> sint index \<and> sint index < int (length (UInt64_classes_' p))) \<longrightarrow>
      to_classlabel_UInt64 bp index o4 p
        = (case bp of Unchecked \<Rightarrow> Undefined | Checked e \<Rightarrow> Raised e o4))
   \<and> (\<not> (0 \<le> sint index \<and> sint index < int (length (Int8_classes_' p))) \<longrightarrow>
      to_classlabel_Int8 bp index o5 p
        = (case bp of Unchecked \<Rightarrow> Undefined | Checked e \<Rightarrow> Raised e o5))
   \<and> (\<not> (0 \<le> sint index \<and> sint index < int (length (Int16_classes_' p))) \<longrightarrow>
      to_classlabel_Int16 bp index o6 p
        = (case bp of Unchecked \<Rightarrow> Undefined | Checked e \<Rightarrow> Raised e o6))
   \<and> (\<not> (0 \<le> sint index \<and> sint index < int (length (Int32_classes_' p))) \<longrightarrow>
      to_classlabel_Int32 bp index o7 p
        = (case bp of Unchecked \<Rightarrow> Undefined | Checked e \<Rightarrow> Raised e o7))
   \<and> (\<not> (0 \<le> sint index \<and> sint index < int (length (Int64_classes_' p))) \<longrightarrow>
      to_classlabel_Int64 bp index o8 p
        = (case bp of Unchecked \<Rightarrow> Undefined | Checked e \<Rightarrow> Raised e o8))
   \<and> (\<not> (0 \<le> sint index \<and> sint index < int (length (double_classes_' p))) \<longrightarrow>
      to_classlabel_double bp index o9 p
        = (case bp of Unchecked \<Rightarrow> Undefined | Checked e \<Rightarrow> Raised e o9))
   \<and> (\<not> (0 \<le> sint index \<and> sint index < int (length (float_classes_' p))) \<longrightarrow>
      to_classlabel_float bp index o10 p
        = (case bp of Unchecked \<Rightarrow> Undefined | Checked e \<Rightarrow> Raised e o10))
   \<and> (catalog_invariant p \<and> 0 \<le> sint index \<and> sint index < sint (class_count_' p) \<longrightarrow>
      to_classlabel_UInt8 bp index o1 p = Returned (UInt8_classes_' p ! nat (sint index))
      \<and> to_classlabel_UInt16 bp index o2 p = Returned (UInt16_classes_' p ! nat (sint index))
      \<and> to_classlabel_UInt32 bp index o3 p = Returned (UInt32_classes_' p ! nat (sint index))
      \<and> to_classlabel_UInt64 bp index o4 p = Returned (UInt64_classes_' p ! nat (sint index))
      \<and> to_classlabel_Int8 bp index o5 p = Returned (Int8_classes_' p ! nat (sint index))
      \<and> to_classlabel_Int16 bp index o6 p = Returned (Int16_classes_' p ! nat (sint index))
      \<and> to_classlabel_Int32 bp index o7 p = Returned (Int32_classes_' p ! nat (sint index))
      \<and> to_classlabel_Int64 bp index o8 p = Returned (Int64_classes_' p ! nat (sint index))
      \<and> to_classlabel_double bp index o9 p = Returned (double_classes_' p ! nat (sint index))
      \<and> to_classlabel_float bp index o10 p = Returned (float_classes_' p ! nat (sint index)))
   \<and> (catalog_invariant p \<and> \<not> (0 \<le> sint index \<and> sint index < sint (class_count_' p)) \<longrightarrow>
      to_classlabel_UInt8 bp index o1 p
        = (case bp of Unchecked \<Rightarrow> Undefined | Checked e \<Rightarrow> Raised e o1)
      \<and> to_classlabel_UInt16 bp index o2 p
        = (case bp of Unchecked \<Rightarrow> Undefined | Checked e \<Rightarrow> Raised e o2)
      \<and> to_classlabel_UInt32 bp index o3 p
        = (case bp of Unchecked \<Rightarrow> Undefined | Checked e \<Rightarrow> Raised e o3)
      \<and> to_classlabel_UInt64 bp index o4 p
        = (case bp of Unchecked \<Rightarrow> Undefined | Checked e \<Rightarrow> Raised e o4)
      \<and> to_classlabel_Int8 bp index o5 p
        = (case bp of Unchecked \<Rightarrow> Undefined | Checked e \<Rightarrow> Raised e o5)
      \<and> to_classlabel_Int16 bp index o6 p
        = (case bp of Unchecked \<Rightarrow> Undefined | Checked e \<Rightarrow> Raised e o6)
      \<and> to_classlabel_Int32 bp index o7 p
        = (case bp of Unchecked \<Rightarrow> Undefined | Checked e \<Rightarrow> Raised e o7)
      \<and> to_classlabel_Int64 bp index o8 p
        = (case bp of Unchecked \<Rightarrow> Undefined | Checked e \<Rightarrow> Raised e o8)
      \<and> to_classlabel_double bp index o9 p
        = (case bp of Unchecked \<Rightarrow> Undefined | Checked e \<Rightarrow> Raised e o9)
      \<and> to_classlabel_float bp index o10 p
        = (case bp of Unchecked \<Rightarrow> Undefined | Checked e \<Rightarrow> Raised e o10))"
proof -
  have inv: "int (length (UInt8_classes_' p)) = sint (class_count_' p)
      \<and> int (length (UInt16_classes_' p)) = sint (class_count_' p)
      \<and> int (length (UInt32_classes_' p)) = sint (class_count_' p)
      \<and> int (length (UInt64_classes_' p)) = sint (class_count_' p)
      \<and> int (length (Int8_classes_' p)) = sint (class_count_' p)
      \<and> int (length (Int16_classes_' p)) = sint (class_count_' p)
      \<and> int (length (Int32_classes_' p)) = sint (class_count_' p)
      \<and> int (length (Int64_classes_' p)) = sint (class_count_' p)
      \<and> int (length (double_classes_' p)) = sint (class_count_' p)
      \<and> int (length (float_classes_' p)) = sint (class_count_' p)"
    if "catalog_invariant p"
    using that by (simp only: catalog_invariant_def)
  show ?thesis
  proof (intro conjI impI)
    assume a: "catalog_invariant p \<and> 0 \<le> sint index \<and> sint index < sint (class_count_' p)"
    note i = inv [OF a [THEN conjunct1]]
    note r = a [THEN conjunct2]
    show "to_classlabel_UInt8 bp index o1 p = Returned (UInt8_classes_' p ! nat (sint index))"
      unfolding to_classlabel_defs using i r by (intro ArrayVector_index_inside) simp
    show "to_classlabel_UInt16 bp index o2 p = Returned (UInt16_classes_' p ! nat (sint index))"
      unfolding to_classlabel_defs using i r by (intro ArrayVector_index_inside) simp
    show "to_classlabel_UInt32 bp index o3 p = Returned (UInt32_classes_' p ! nat (sint index))"
      unfolding to_classlabel_defs using i r by (intro ArrayVector_index_inside) simp
    show "to_classlabel_UInt64 bp index o4 p = Returned (UInt64_classes_' p ! nat (sint index))"
      unfolding to_classlabel_defs using i r by (intro ArrayVector_index_inside) simp
    show "to_classlabel_Int8 bp index o5 p = Returned (Int8_classes_' p ! nat (sint index))"
      unfolding to_classlabel_defs using i r by (intro ArrayVector_index_inside) simp
    show "to_classlabel_Int16 bp index o6 p = Returned (Int16_classes_' p ! nat (sint index))"
      unfolding to_classlabel_defs using i r by (intro ArrayVector_index_inside) simp
    show "to_classlabel_Int32 bp index o7 p = Returned (Int32_classes_' p ! nat (sint index))"
      unfolding to_classlabel_defs using i r by (intro ArrayVector_index_inside) simp
    show "to_classlabel_Int64 bp index o8 p = Returned (Int64_classes_' p ! nat (sint index))"
      unfolding to_classlabel_defs using i r by (intro ArrayVector_index_inside) simp
    show "to_classlabel_double bp index o9 p = Returned (double_classes_' p ! nat (sint index))"
      unfolding to_classlabel_defs using i r by (intro ArrayVector_index_inside) simp
    show "to_classlabel_float bp index o10 p = Returned (float_classes_' p ! nat (sint index))"
      unfolding to_classlabel_defs using i r by (intro ArrayVector_index_inside) simp
  next
    assume a: "catalog_invariant p \<and> \<not> (0 \<le> sint index \<and> sint index < sint (class_count_' p))"
    note i = inv [OF a [THEN conjunct1]]
    note r = a [THEN conjunct2]
    show "to_classlabel_UInt8 bp index o1 p
        = (case bp of Unchecked \<Rightarrow> Undefined | Checked e \<Rightarrow> Raised e o1)"
      unfolding to_classlabel_defs using i r by (intro ArrayVector_index_outside) simp
    show "to_classlabel_UInt16 bp index o2 p
        = (case bp of Unchecked \<Rightarrow> Undefined | Checked e \<Rightarrow> Raised e o2)"
      unfolding to_classlabel_defs using i r by (intro ArrayVector_index_outside) simp
    show "to_classlabel_UInt32 bp index o3 p
        = (case bp of Unchecked \<Rightarrow> Undefined | Checked e \<Rightarrow> Raised e o3)"
      unfolding to_classlabel_defs using i r by (intro ArrayVector_index_outside) simp
    show "to_classlabel_UInt64 bp index o4 p
        = (case bp of Unchecked \<Rightarrow> Undefined | Checked e \<Rightarrow> Raised e o4)"
      unfolding to_classlabel_defs using i r by (intro ArrayVector_index_outside) simp
    show "to_classlabel_Int8 bp index o5 p
        = (case bp of Unchecked \<Rightarrow> Undefined | Checked e \<Rightarrow> Raised e o5)"
      unfolding to_classlabel_defs using i r by (intro ArrayVector_index_outside) simp
    show "to_classlabel_Int16 bp index o6 p
        = (case bp of Unchecked \<Rightarrow> Undefined | Checked e \<Rightarrow> Raised e o6)"
      unfolding to_classlabel_defs using i r by (intro ArrayVector_index_outside) simp
    show "to_classlabel_Int32 bp index o7 p
        = (case bp of Unchecked \<Rightarrow> Undefined | Checked e \<Rightarrow> Raised e o7)"
      unfolding to_classlabel_defs using i r by (intro ArrayVector_index_outside) simp
    show "to_classlabel_Int64 bp index o8 p
        = (case bp of Unchecked \<Rightarrow> Undefined | Checked e \<Rightarrow> Raised e o8)"
      unfolding to_classlabel_defs using i r by (intro ArrayVector_index_outside) simp
    show "to_classlabel_double bp index o9 p
        = (case bp of Unchecked \<Rightarrow> Undefined | Checked e \<Rightarrow> Raised e o9)"
      unfolding to_classlabel_defs using i r by (intro ArrayVector_index_outside) simp
    show "to_classlabel_float bp index o10 p
        = (case bp of Unchecked \<Rightarrow> Undefined | Checked e \<Rightarrow> Raised e o10)"
      unfolding to_classlabel_defs using i r by (intro ArrayVector_index_outside) simp
  qed (auto simp add: to_classlabel_defs ArrayVector_index_def)
qed

theorem to_classlabel_indexes_catalog_witness:
  "catalog_invariant (classes_' oor_example (Int32_labels [1, 2]) ProblemSpec_init)
   \<and> to_classlabel_Int32 (Checked IndexOutOfRange) 1 0
        (classes_' oor_example (Int32_labels [1, 2]) ProblemSpec_init) = Returned 2
   \<and> to_classlabel_Int32 Unchecked 1 0
        (classes_' oor_example (Int32_labels [1, 2]) ProblemSpec_init) = Returned 2
   \<and> to_classlabel_double Unchecked 0 (Fin 0)
        (classes_' oor_example (double_labels [Fin 7, Fin 8]) ProblemSpec_init) = Returned (Fin 7)
   \<and> to_classlabel_Int32 (Checked IndexOutOfRange) 2 0
        (classes_' oor_example (Int32_labels [1, 2]) ProblemSpec_init)
       = Raised IndexOutOfRange 0
   \<and> to_classlabel_Int32 Unchecked 2 0
        (classes_' oor_example (Int32_labels [1, 2]) ProblemSpec_init) = Undefined
   \<and> to_classlabel_Int32 Unchecked (- 1) 0
        (classes_' oor_example (Int32_labels [1, 2]) ProblemSpec_init) = Undefined"
proof -
  let ?p = "classes_' oor_example (Int32_labels [1, 2]) ProblemSpec_init"
  let ?q = "classes_' oor_example (double_labels [Fin 7, Fin 8]) ProblemSpec_init"
  have c: "catalog_invariant ?p"
    by (simp add: classes_'_def ProblemSpec_init_def push_back_class_def catalog_invariant_def)
  have cn: "class_count_' ?p = 2" "Int32_classes_' ?p = [1, 2]"
    by (simp_all add: classes_'_def ProblemSpec_init_def push_back_class_def)
  have dq: "double_classes_' ?q = [Fin 7, Fin 8]"
    by (simp add: classes_'_def ProblemSpec_init_def push_back_class_def)
  have m1: "sint (- 1 :: cint) = - 1" by simp
  note inside = to_classlabel_indexes_catalog [THEN conjunct2, THEN conjunct2, THEN conjunct2,
      THEN conjunct2, THEN conjunct2, THEN conjunct2, THEN conjunct2, THEN conjunct2,
      THEN conjunct2, THEN conjunct2, THEN conjunct2, THEN conjunct2, THEN conjunct2,
      THEN conjunct2, THEN conjunct2, THEN conjunct2, THEN conjunct2, THEN conjunct2,
      THEN conjunct2, THEN conjunct2, THEN conjunct1, rule_format]
  note outside = to_classlabel_indexes_catalog [THEN conjunct2, THEN conjunct2, THEN conjunct2,
      THEN conjunct2, THEN conjunct2, THEN conjunct2, THEN conjunct2, THEN conjunct2,
      THEN conjunct2, THEN conjunct2, THEN conjunct2, THEN conjunct2, THEN conjunct2,
      THEN conjunct2, THEN conjunct2, THEN conjunct2, THEN conjunct2, THEN conjunct2,
      THEN conjunct2, THEN conjunct2, THEN conjunct2, rule_format]
  note anyp = to_classlabel_indexes_catalog [THEN conjunct2, THEN conjunct2, THEN conjunct2,
      THEN conjunct2, THEN conjunct2, THEN conjunct2, THEN conjunct2, THEN conjunct2,
      THEN conjunct1, rule_format]
  have a1: "to_classlabel_Int32 (Checked IndexOutOfRange) 1 0 ?p = Returned 2"
    using inside [of ?p 1 "Checked IndexOutOfRange" _ _ _ _ _ _ 0] c cn by simp
  have a2: "to_classlabel_Int32 Unchecked 1 0 ?p = Returned 2"
    using inside [of ?p 1 Unchecked _ _ _ _ _ _ 0] c cn by simp
  have a3: "to_classlabel_double Unchecked 0 (Fin 0) ?q = Returned (Fin 7)"
    using anyp [of 0 ?q Unchecked "Fin 0"] dq by simp
  have a4: "to_classlabel_Int32 (Checked IndexOutOfRange) 2 0 ?p = Raised IndexOutOfRange 0"
    using outside [of ?p 2 "Checked IndexOutOfRange" _ _ _ _ _ _ 0] c cn by simp
  have a5: "to_classlabel_Int32 Unchecked 2 0 ?p = Undefined"
    using outside [of ?p 2 Unchecked _ _ _ _ _ _ 0] c cn by simp
  have a6: "to_classlabel_Int32 Unchecked (- 1) 0 ?p = Undefined"
    using outside [of ?p "- 1" Unchecked _ _ _ _ _ _ 0] c cn m1 by simp
  show ?thesis
    using c a1 a2 a3 a4 a5 a6 by (intro conjI)
qed

text \<open>
  After two calls of \<open>classes_\<close>, with four labels and with three, the catalogs have
  seven entries and \<open>class_count_\<close> is 3: \<open>to_classlabel\<close> with \<open>index == class_count_\<close>
  returns the fourth label, 5, also when \<open>ArrayVector\<close> checks its index and raises
  \<open>IndexOutOfRange\<close>.
\<close>

theorem to_classlabel_no_range_check_counterexample:
  "class_count_' (classes_' oor_example (Int32_labels [7, 8, 9])
       (classes_' oor_example (Int32_labels [1, 2, 3, 5]) ProblemSpec_init)) = 3
   \<and> to_classlabel_Int32 (Checked IndexOutOfRange) 3 0
        (classes_' oor_example (Int32_labels [7, 8, 9])
           (classes_' oor_example (Int32_labels [1, 2, 3, 5]) ProblemSpec_init)) = Returned 5
   \<and> to_classlabel_Int32 Unchecked 3 0
        (classes_' oor_example (Int32_labels [7, 8, 9])
           (classes_' oor_example (Int32_labels [1, 2, 3, 5]) ProblemSpec_init)) = Returned 5"
  by (simp add: classes_'_def ProblemSpec_init_def push_back_class_def to_classlabel_Int32_def
        ArrayVector_index_def)




section \<open>Properties of the flat encoding\<close>

text \<open>
  C1. A buffer of the wrong length. For the options, \<open>serialize\<close> and \<open>unserialize\<close> fail
  with \<open>PreconditionViolation\<close> on every buffer that has not 11 slots, and object and
  buffer are as before. \<open>ProblemSpec::serialize\<close> fails so on every buffer whose length is
  not \<open>serialized_size()\<close>, and the buffer is as before. \<open>ProblemSpec::unserialize\<close>
  checks as it reads; \<open>class_count_\<close> below is the class count read from slot 1. With
  fewer than 8 slots it fails and the object is as before. With at least 8 slots but
  fewer than \<open>8 + class_count_\<close>, that sum being at most 2147483647, it fails when
  \<open>column_count_\<close> and \<open>class_count_\<close> have been overwritten. With weights (slot 7 not
  zero), at least \<open>8 + class_count_\<close> slots and a length other than
  \<open>8 + 2 * class_count_\<close>, where \<open>2 * class_count_\<close> is at least -2147483648 and
  \<open>8 + 2 * class_count_\<close> at most 2147483647, it fails when the eight scalar fields have
  been overwritten. Without weights (slot 7 zero) a buffer of at least
  \<open>8 + class_count_\<close> slots, that sum being at most 2147483647, is accepted, a longer
  one too: the call returns, and every slot from the ninth on has become a class. Every
  failure of \<open>unserialize\<close> is a \<open>PreconditionViolation\<close> and leaves the ten catalogs and
  the weights as they were.
\<close>

theorem wrong_length_fails:
  "(int (length buf) \<noteq> 11 \<longrightarrow>
      RandomForestOptions_unserialize oor buf opt = Raised PreconditionViolation opt
      \<and> RandomForestOptions_serialize opt buf = Raised PreconditionViolation buf)
   \<and> (word_of_nat (length buf) \<noteq> serialized_size p \<longrightarrow>
      ProblemSpec_serialize p buf = Raised PreconditionViolation buf)
   \<and> (length buf < 8 \<longrightarrow> ProblemSpec_unserialize oor buf p = Raised PreconditionViolation p)
   \<and> (8 \<le> length buf
       \<and> 8 + sint (int_of_double oor (buf ! 1)) \<le> 2147483647
       \<and> int (length buf) < 8 + sint (int_of_double oor (buf ! 1)) \<longrightarrow>
      ProblemSpec_unserialize oor buf p =
        Raised PreconditionViolation
          (p\<lparr>column_count_' := int_of_double oor (buf ! 0),
             class_count_' := int_of_double oor (buf ! 1)\<rparr>))
   \<and> (8 \<le> length buf
       \<and> - 2147483648 \<le> 2 * sint (int_of_double oor (buf ! 1))
       \<and> 8 + 2 * sint (int_of_double oor (buf ! 1)) \<le> 2147483647
       \<and> 8 + sint (int_of_double oor (buf ! 1)) \<le> int (length buf)
       \<and> bool_of_double (buf ! 7)
       \<and> int (length buf) \<noteq> 8 + 2 * sint (int_of_double oor (buf ! 1)) \<longrightarrow>
      ProblemSpec_unserialize oor buf p =
        Raised PreconditionViolation
          (p\<lparr>column_count_' := int_of_double oor (buf ! 0),
             class_count_' := int_of_double oor (buf ! 1),
             row_count_' := int_of_double oor (buf ! 2),
             actual_mtry_' := int_of_double oor (buf ! 3),
             actual_msample_' := int_of_double oor (buf ! 4),
             problem_type_' := Problem_t (unsigned_of_double oor (buf ! 5)),
             class_type_' := Types_t (unsigned_of_double oor (buf ! 6)),
             is_weighted := True\<rparr>))
   \<and> (8 \<le> length buf
       \<and> 8 + sint (int_of_double oor (buf ! 1)) \<le> 2147483647
       \<and> 8 + sint (int_of_double oor (buf ! 1)) \<le> int (length buf)
       \<and> \<not> bool_of_double (buf ! 7) \<longrightarrow>
      ProblemSpec_unserialize oor buf p =
        Returned (insert_classes oor (drop 8 buf)
          (p\<lparr>column_count_' := int_of_double oor (buf ! 0),
             class_count_' := int_of_double oor (buf ! 1),
             row_count_' := int_of_double oor (buf ! 2),
             actual_mtry_' := int_of_double oor (buf ! 3),
             actual_msample_' := int_of_double oor (buf ! 4),
             problem_type_' := Problem_t (unsigned_of_double oor (buf ! 5)),
             class_type_' := Types_t (unsigned_of_double oor (buf ! 6)),
             is_weighted := False\<rparr>)))
   \<and> (\<forall>e p'. ProblemSpec_unserialize oor buf p = Raised e p' \<longrightarrow>
         e = PreconditionViolation
         \<and> UInt8_classes_' p' = UInt8_classes_' p
         \<and> UInt16_classes_' p' = UInt16_classes_' p
         \<and> UInt32_classes_' p' = UInt32_classes_' p
         \<and> UInt64_classes_' p' = UInt64_classes_' p
         \<and> Int8_classes_' p' = Int8_classes_' p
         \<and> Int16_classes_' p' = Int16_classes_' p
         \<and> Int32_classes_' p' = Int32_classes_' p
         \<and> Int64_classes_' p' = Int64_classes_' p
         \<and> double_classes_' p' = double_classes_' p
         \<and> float_classes_' p' = float_classes_' p
         \<and> class_weights_' p' = class_weights_' p)"
proof (intro conjI)
  show "int (length buf) \<noteq> 11 \<longrightarrow>
      RandomForestOptions_unserialize oor buf opt = Raised PreconditionViolation opt
      \<and> RandomForestOptions_serialize opt buf = Raised PreconditionViolation buf"
    using options_wrong_length [of buf oor opt] by blast
  show "word_of_nat (length buf) \<noteq> serialized_size p \<longrightarrow>
      ProblemSpec_serialize p buf = Raised PreconditionViolation buf"
    using serialize_wrong_length [of buf p] by blast
  show "length buf < 8 \<longrightarrow> ProblemSpec_unserialize oor buf p = Raised PreconditionViolation p"
    using unserialize_short [of buf oor p] by blast
  show "8 \<le> length buf
       \<and> 8 + sint (int_of_double oor (buf ! 1)) \<le> 2147483647
       \<and> int (length buf) < 8 + sint (int_of_double oor (buf ! 1)) \<longrightarrow>
      ProblemSpec_unserialize oor buf p =
        Raised PreconditionViolation
          (p\<lparr>column_count_' := int_of_double oor (buf ! 0),
             class_count_' := int_of_double oor (buf ! 1)\<rparr>)"
    using unserialize_second_check [of buf oor p] by blast
  show "8 \<le> length buf
       \<and> - 2147483648 \<le> 2 * sint (int_of_double oor (buf ! 1))
       \<and> 8 + 2 * sint (int_of_double oor (buf ! 1)) \<le> 2147483647
       \<and> 8 + sint (int_of_double oor (buf ! 1)) \<le> int (length buf)
       \<and> bool_of_double (buf ! 7)
       \<and> int (length buf) \<noteq> 8 + 2 * sint (int_of_double oor (buf ! 1)) \<longrightarrow>
      ProblemSpec_unserialize oor buf p =
        Raised PreconditionViolation
          (p\<lparr>column_count_' := int_of_double oor (buf ! 0),
             class_count_' := int_of_double oor (buf ! 1),
             row_count_' := int_of_double oor (buf ! 2),
             actual_mtry_' := int_of_double oor (buf ! 3),
             actual_msample_' := int_of_double oor (buf ! 4),
             problem_type_' := Problem_t (unsigned_of_double oor (buf ! 5)),
             class_type_' := Types_t (unsigned_of_double oor (buf ! 6)),
             is_weighted := True\<rparr>)"
    using unserialize_third_check [of buf oor p] by blast
  show "8 \<le> length buf
       \<and> 8 + sint (int_of_double oor (buf ! 1)) \<le> 2147483647
       \<and> 8 + sint (int_of_double oor (buf ! 1)) \<le> int (length buf)
       \<and> \<not> bool_of_double (buf ! 7) \<longrightarrow>
      ProblemSpec_unserialize oor buf p =
        Returned (insert_classes oor (drop 8 buf)
          (p\<lparr>column_count_' := int_of_double oor (buf ! 0),
             class_count_' := int_of_double oor (buf ! 1),
             row_count_' := int_of_double oor (buf ! 2),
             actual_mtry_' := int_of_double oor (buf ! 3),
             actual_msample_' := int_of_double oor (buf ! 4),
             problem_type_' := Problem_t (unsigned_of_double oor (buf ! 5)),
             class_type_' := Types_t (unsigned_of_double oor (buf ! 6)),
             is_weighted := False\<rparr>))"
    using unserialize_unweighted_accepts [of buf oor p] by blast
  show "\<forall>e p'. ProblemSpec_unserialize oor buf p = Raised e p' \<longrightarrow>
         e = PreconditionViolation
         \<and> UInt8_classes_' p' = UInt8_classes_' p
         \<and> UInt16_classes_' p' = UInt16_classes_' p
         \<and> UInt32_classes_' p' = UInt32_classes_' p
         \<and> UInt64_classes_' p' = UInt64_classes_' p
         \<and> Int8_classes_' p' = Int8_classes_' p
         \<and> Int16_classes_' p' = Int16_classes_' p
         \<and> Int32_classes_' p' = Int32_classes_' p
         \<and> Int64_classes_' p' = Int64_classes_' p
         \<and> double_classes_' p' = double_classes_' p
         \<and> float_classes_' p' = float_classes_' p
         \<and> class_weights_' p' = class_weights_' p"
    using unserialize_Raised [of oor buf p] by blast
qed

theorem wrong_length_fails_witness:
  "int (length ([] :: double list)) \<noteq> 11
   \<and> RandomForestOptions_unserialize oor_example [] RandomForestOptions_init
       = Raised PreconditionViolation RandomForestOptions_init
   \<and> RandomForestOptions_serialize RandomForestOptions_init [] = Raised PreconditionViolation []
   \<and> word_of_nat (length ([] :: double list)) \<noteq> serialized_size ProblemSpec_init
   \<and> ProblemSpec_serialize ProblemSpec_init [] = Raised PreconditionViolation []
   \<and> ProblemSpec_unserialize oor_example [] ProblemSpec_init
       = Raised PreconditionViolation ProblemSpec_init
   \<and> ProblemSpec_unserialize oor_example
         [Fin 4, Fin 5, Fin 0, Fin 0, Fin 0, Fin 0, Fin 0, Fin 0, Fin 42] ProblemSpec_init
       = Raised PreconditionViolation
           (ProblemSpec_init\<lparr>column_count_' := 4, class_count_' := 5\<rparr>)
   \<and> ProblemSpec_unserialize oor_example
         [Fin 4, Fin 1, Fin 9, Fin 2, Fin 3, Fin 3, Fin 11, Fin 1, Fin 42] ProblemSpec_init
       = Raised PreconditionViolation
           (ProblemSpec_init\<lparr>column_count_' := 4, class_count_' := 1, row_count_' := 9,
              actual_mtry_' := 2, actual_msample_' := 3, problem_type_' := Problem_t 3,
              class_type_' := Types_t 11, is_weighted := True\<rparr>)
   \<and> (\<exists>p'. ProblemSpec_unserialize oor_example
         [Fin 4, Fin 1, Fin 9, Fin 2, Fin 3, Fin 1, Fin 8, Fin 0, Fin 42, Fin 43] ProblemSpec_init
           = Returned p'
       \<and> class_count_' p' = 1 \<and> class_type_' p' = double_t
       \<and> Int32_classes_' p' = [42, 43] \<and> double_classes_' p' = [Fin 42, Fin 43])"
proof -
  let ?b2 = "[Fin 4, Fin 5, Fin 0, Fin 0, Fin 0, Fin 0, Fin 0, Fin 0, Fin 42]"
  let ?b3 = "[Fin 4, Fin 1, Fin 9, Fin 2, Fin 3, Fin 3, Fin 11, Fin 1, Fin 42]"
  let ?b4 = "[Fin 4, Fin 1, Fin 9, Fin 2, Fin 3, Fin 1, Fin 8, Fin 0, Fin 42, Fin 43]"
  note t1 = wrong_length_fails [where buf = "[]" and opt = RandomForestOptions_init
        and p = ProblemSpec_init and oor = oor_example]
  note t2 = wrong_length_fails [where buf = ?b2 and p = ProblemSpec_init and oor = oor_example]
  note t3 = wrong_length_fails [where buf = ?b3 and p = ProblemSpec_init and oor = oor_example]
  note t4 = wrong_length_fails [where buf = ?b4 and p = ProblemSpec_init and oor = oor_example]
  have s: "word_of_nat (length ([] :: double list)) \<noteq> serialized_size ProblemSpec_init"
    by (simp add: serialized_size_def ProblemSpec_init_def)
  note v = int_of_double_values [of oor_example] unsigned_of_double_values [of oor_example]
  have e: "bool_of_double (Fin 1)" "\<not> bool_of_double (Fin 0)"
    by (simp_all add: bool_of_double_def)
  have a1: "RandomForestOptions_unserialize oor_example [] RandomForestOptions_init
       = Raised PreconditionViolation RandomForestOptions_init
   \<and> RandomForestOptions_serialize RandomForestOptions_init [] = Raised PreconditionViolation []"
    using t1 [THEN conjunct1] by simp
  have a2: "ProblemSpec_serialize ProblemSpec_init [] = Raised PreconditionViolation []"
    using t1 [THEN conjunct2, THEN conjunct1] s by simp
  have a3: "ProblemSpec_unserialize oor_example [] ProblemSpec_init
       = Raised PreconditionViolation ProblemSpec_init"
    using t1 [THEN conjunct2, THEN conjunct2, THEN conjunct1] by simp
  have a4: "ProblemSpec_unserialize oor_example ?b2 ProblemSpec_init
       = Raised PreconditionViolation
           (ProblemSpec_init\<lparr>column_count_' := 4, class_count_' := 5\<rparr>)"
    using t2 [THEN conjunct2, THEN conjunct2, THEN conjunct2, THEN conjunct1] v by simp
  have a5: "ProblemSpec_unserialize oor_example ?b3 ProblemSpec_init
       = Raised PreconditionViolation
           (ProblemSpec_init\<lparr>column_count_' := 4, class_count_' := 1, row_count_' := 9,
              actual_mtry_' := 2, actual_msample_' := 3, problem_type_' := Problem_t 3,
              class_type_' := Types_t 11, is_weighted := True\<rparr>)"
    using t3 [THEN conjunct2, THEN conjunct2, THEN conjunct2, THEN conjunct2, THEN conjunct1] v e
    by simp
  have a6: "\<exists>p'. ProblemSpec_unserialize oor_example ?b4 ProblemSpec_init = Returned p'
       \<and> class_count_' p' = 1 \<and> class_type_' p' = double_t
       \<and> Int32_classes_' p' = [42, 43] \<and> double_classes_' p' = [Fin 42, Fin 43]"
    using t4 [THEN conjunct2, THEN conjunct2, THEN conjunct2, THEN conjunct2, THEN conjunct2,
        THEN conjunct1] v e
    by (simp add: insert_classes_def ProblemSpec_init_def double_t_def trunc_toward_zero_def
          fits_def)
  show ?thesis
    using s a1 a2 a3 a4 a5 a6 by simp
qed

text \<open>
  The second check fails on a buffer of 9 slots that announces 5 classes, and the object
  has changed by then: \<open>column_count_\<close> is 4 and \<open>class_count_\<close> is 5.
\<close>

theorem unserialize_partial_counterexample:
  "int (length [Fin 4, Fin 5, Fin 0, Fin 0, Fin 0, Fin 0, Fin 0, Fin 0, Fin 42 :: double])
     \<noteq> 8 + 5
   \<and> ProblemSpec_unserialize oor_example
       [Fin 4, Fin 5, Fin 0, Fin 0, Fin 0, Fin 0, Fin 0, Fin 0, Fin 42] ProblemSpec_init
     = Raised PreconditionViolation (ProblemSpec_init\<lparr>column_count_' := 4, class_count_' := 5\<rparr>)
   \<and> ProblemSpec_init\<lparr>column_count_' := 4, class_count_' := 5\<rparr> \<noteq> ProblemSpec_init"
  by (simp add: ProblemSpec_unserialize_def vigra_precondition_def Let_def int_of_double_def
        fits_def trunc_toward_zero_def ProblemSpec_init_def)

section \<open>The invariant of the class catalogs\<close>

text \<open>
  C3. Every member function that changes the object keeps the ten catalogs the
  conversions of one sequence of labels: they stay equally long, and position \<open>i\<close> is
  the same class in each. \<open>column_count\<close>, \<open>class_weights\<close> and \<open>make_from_map\<close> leave
  the catalogs alone, \<open>classes_\<close> and \<open>unserialize\<close> append to them (an \<open>unserialize\<close>
  that fails leaves them alone), \<open>clear\<close> empties them. That the common length is
  \<open>class_count_\<close> holds after \<open>clear\<close>, is kept by \<open>column_count\<close> and \<open>class_weights\<close>,
  and holds after \<open>classes_\<close> (fewer than \<open>2 ^ 31\<close> labels) and after an \<open>unserialize\<close>
  that returns (with weights, or with exactly \<open>8 + class_count_\<close> slots) when the
  catalogs were empty before the call.
\<close>

theorem catalogs_stay_parallel:
  "(catalogs_of oor src p \<longrightarrow>
      catalogs_of oor src (column_count n p)
      \<and> catalogs_of oor src (class_weights ws p)
      \<and> catalogs_of oor (src @ label_values ls) (classes_' oor ls p)
      \<and> (\<forall>p'. ProblemSpec_unserialize oor buf p = Returned p' \<longrightarrow>
            catalogs_of oor
              (src @ map FpV
                 (drop (8 + (if is_weighted p' then nat (sint (class_count_' p')) else 0)) buf))
              p')
      \<and> (\<forall>e p'. ProblemSpec_unserialize oor buf p = Raised e p' \<longrightarrow> catalogs_of oor src p')
      \<and> (\<forall>p' m'. final_state (make_from_map oor m p) = Some (p', m') \<longrightarrow>
            catalogs_of oor src p'))
   \<and> catalogs_of oor [] (clear p) \<and> catalog_invariant (clear p)
   \<and> (catalog_invariant p \<longrightarrow>
        catalog_invariant (column_count n p) \<and> catalog_invariant (class_weights ws p))
   \<and> (catalogs_of oor [] p \<and> length (label_values ls) < 2147483648 \<longrightarrow>
        catalog_invariant (classes_' oor ls p))
   \<and> (catalogs_of oor [] p \<longrightarrow>
        (\<forall>p'. ProblemSpec_unserialize oor buf p = Returned p'
               \<and> (is_weighted p' \<or> int (length buf) = 8 + sint (class_count_' p'))
             \<longrightarrow> catalog_invariant p'))"
proof (intro conjI impI allI)
  assume c: "catalogs_of oor src p"
  show "catalogs_of oor src (column_count n p)" using c by (simp add: catalogs_of_scalars)
  show "catalogs_of oor src (class_weights ws p)" using c by (simp add: catalogs_of_scalars)
  show "catalogs_of oor (src @ label_values ls) (classes_' oor ls p)"
    using c by (rule catalogs_of_classes)
  show "catalogs_of oor
          (src @ map FpV
             (drop (8 + (if is_weighted p' then nat (sint (class_count_' p')) else 0)) buf))
          p'"
    if "ProblemSpec_unserialize oor buf p = Returned p'" for p'
    using c that by (rule catalogs_of_unserialize_Returned)
  show "catalogs_of oor src p'" if "ProblemSpec_unserialize oor buf p = Raised e p'" for e p'
    using c that by (rule catalogs_of_unserialize_Raised)
  show "catalogs_of oor src p'" if "final_state (make_from_map oor m p) = Some (p', m')" for p' m'
    using c that by (rule catalogs_of_make_from_map)
next
  show "catalogs_of oor [] (clear p)" using clear_invariant by blast
  show "catalog_invariant (clear p)" using clear_invariant [of oor_example] by blast
next
  assume "catalog_invariant p"
  then show "catalog_invariant (column_count n p)" by (simp add: catalog_invariant_scalars)
next
  assume "catalog_invariant p"
  then show "catalog_invariant (class_weights ws p)" by (simp add: catalog_invariant_scalars)
next
  assume "catalogs_of oor [] p \<and> length (label_values ls) < 2147483648"
  then show "catalog_invariant (classes_' oor ls p)"
    using catalog_invariant_classes [of oor p ls] by blast
next
  fix p'
  assume "catalogs_of oor [] p"
    and "ProblemSpec_unserialize oor buf p = Returned p'
           \<and> (is_weighted p' \<or> int (length buf) = 8 + sint (class_count_' p'))"
  then show "catalog_invariant p'" using catalog_invariant_unserialize [of oor p buf p'] by blast
qed

theorem catalogs_stay_parallel_witness:
  "catalogs_of oor_example [] ProblemSpec_init
   \<and> catalogs_of oor_example [] (column_count 4 ProblemSpec_init)
   \<and> catalog_invariant (clear ProblemSpec_init)
   \<and> catalog_invariant (column_count 4 (clear ProblemSpec_init))
   \<and> length (label_values (Int32_labels [1, 2])) < 2147483648
   \<and> catalogs_of oor_example [IntV 1, IntV 2]
       (classes_' oor_example (Int32_labels [1, 2]) ProblemSpec_init)
   \<and> catalog_invariant (classes_' oor_example (Int32_labels [1, 2]) ProblemSpec_init)
   \<and> ProblemSpec_unserialize oor_example
         [Fin 4, Fin 2, Fin 9, Fin 2, Fin 3, Fin 3, Fin 6, Fin 0, Fin 7, Fin 8] ProblemSpec_init
       = Returned (insert_classes oor_example [Fin 7, Fin 8]
           (ProblemSpec_init\<lparr>column_count_' := 4, class_count_' := 2, row_count_' := 9,
              actual_mtry_' := 2, actual_msample_' := 3, problem_type_' := Problem_t 3,
              class_type_' := Int32_t, is_weighted := False\<rparr>))
   \<and> catalogs_of oor_example [FpV (Fin 7), FpV (Fin 8)]
       (insert_classes oor_example [Fin 7, Fin 8]
           (ProblemSpec_init\<lparr>column_count_' := 4, class_count_' := 2, row_count_' := 9,
              actual_mtry_' := 2, actual_msample_' := 3, problem_type_' := Problem_t 3,
              class_type_' := Int32_t, is_weighted := False\<rparr>))
   \<and> catalog_invariant (insert_classes oor_example [Fin 7, Fin 8]
           (ProblemSpec_init\<lparr>column_count_' := 4, class_count_' := 2, row_count_' := 9,
              actual_mtry_' := 2, actual_msample_' := 3, problem_type_' := Problem_t 3,
              class_type_' := Int32_t, is_weighted := False\<rparr>))
   \<and> ProblemSpec_unserialize oor_example
         [Fin 4, Fin 5, Fin 0, Fin 0, Fin 0, Fin 0, Fin 0, Fin 0, Fin 42] ProblemSpec_init
       = Raised PreconditionViolation
           (ProblemSpec_init\<lparr>column_count_' := 4, class_count_' := 5\<rparr>)
   \<and> catalogs_of oor_example [] (ProblemSpec_init\<lparr>column_count_' := 4, class_count_' := 5\<rparr>)
   \<and> final_state (make_from_map oor_example example_map ProblemSpec_init)
       = Some (ProblemSpec_init\<lparr> column_count_' := 4, class_count_' := 2, row_count_' := 9,
                    actual_mtry_' := 2, actual_msample_' := 3,
                    problem_type_' := CLASSIFICATION, class_type_' := Int32_t,
                    is_weighted := False, class_weights_' := [] \<rparr>, example_map)
   \<and> catalogs_of oor_example []
       (ProblemSpec_init\<lparr> column_count_' := 4, class_count_' := 2, row_count_' := 9,
                    actual_mtry_' := 2, actual_msample_' := 3,
                    problem_type_' := CLASSIFICATION, class_type_' := Int32_t,
                    is_weighted := False, class_weights_' := [] \<rparr>)"
proof -
  let ?B = "[Fin 4, Fin 2, Fin 9, Fin 2, Fin 3, Fin 3, Fin 6, Fin 0, Fin 7, Fin 8]"
  let ?B2 = "[Fin 4, Fin 5, Fin 0, Fin 0, Fin 0, Fin 0, Fin 0, Fin 0, Fin 42]"
  let ?Q = "insert_classes oor_example [Fin 7, Fin 8]
           (ProblemSpec_init\<lparr>column_count_' := 4, class_count_' := 2, row_count_' := 9,
              actual_mtry_' := 2, actual_msample_' := 3, problem_type_' := Problem_t 3,
              class_type_' := Int32_t, is_weighted := False\<rparr>)"
  let ?R = "ProblemSpec_init\<lparr>column_count_' := 4, class_count_' := 5\<rparr>"
  let ?M = "ProblemSpec_init\<lparr> column_count_' := 4, class_count_' := 2, row_count_' := 9,
                    actual_mtry_' := 2, actual_msample_' := 3,
                    problem_type_' := CLASSIFICATION, class_type_' := Int32_t,
                    is_weighted := False, class_weights_' := [] \<rparr>"
  note t = catalogs_stay_parallel [where p = ProblemSpec_init and src = "[]" and n = 4
      and ls = "Int32_labels [1, 2]" and buf = ?B and oor = oor_example and m = example_map]
  note t2 = catalogs_stay_parallel [where p = ProblemSpec_init and src = "[]"
      and buf = ?B2 and oor = oor_example]
  note t' = catalogs_stay_parallel [where p = "clear ProblemSpec_init" and n = 4
      and oor = oor_example]
  have e: "catalogs_of oor_example [] ProblemSpec_init"
    by (simp add: catalogs_of_def ProblemSpec_init_def)
  have l: "length (label_values (Int32_labels [1, 2])) < 2147483648" by simp
  have u: "ProblemSpec_unserialize oor_example ?B ProblemSpec_init = Returned ?Q"
    by (simp add: ProblemSpec_unserialize_def vigra_precondition_def Let_def
        int_of_double_values unsigned_of_double_values bool_of_double_def Int32_t_def)
  have u2: "ProblemSpec_unserialize oor_example ?B2 ProblemSpec_init
              = Raised PreconditionViolation ?R"
    by (simp add: ProblemSpec_unserialize_def vigra_precondition_def Let_def
        int_of_double_values)
  have mm: "final_state (make_from_map oor_example example_map ProblemSpec_init)
              = Some (?M, example_map)"
    by (simp add: make_from_map_example)
  have q: "\<not> is_weighted ?Q" "int (length ?B) = 8 + sint (class_count_' ?Q)"
    by (simp_all add: insert_classes_def)
  have a1: "catalogs_of oor_example [] (column_count 4 ProblemSpec_init)"
    using t [THEN conjunct1] e by blast
  have a2: "catalogs_of oor_example [IntV 1, IntV 2]
              (classes_' oor_example (Int32_labels [1, 2]) ProblemSpec_init)"
    using t [THEN conjunct1] e by simp
  have a3: "catalog_invariant (clear ProblemSpec_init)"
    using t [THEN conjunct2, THEN conjunct2, THEN conjunct1] by simp
  have a4: "catalog_invariant (column_count 4 (clear ProblemSpec_init))"
    using t' [THEN conjunct2, THEN conjunct2, THEN conjunct2, THEN conjunct1] a3 by blast
  have a5: "catalog_invariant (classes_' oor_example (Int32_labels [1, 2]) ProblemSpec_init)"
    using t [THEN conjunct2, THEN conjunct2, THEN conjunct2, THEN conjunct2, THEN conjunct1]
      e l by blast
  have a6: "catalog_invariant ?Q"
    using t [THEN conjunct2, THEN conjunct2, THEN conjunct2, THEN conjunct2, THEN conjunct2]
      e u q by blast
  have a7: "catalogs_of oor_example [FpV (Fin 7), FpV (Fin 8)] ?Q"
    using t [THEN conjunct1] e u q(1) by simp
  have a8: "catalogs_of oor_example [] ?R"
    using t2 [THEN conjunct1] e u2 by blast
  have a9: "catalogs_of oor_example [] ?M"
    using t [THEN conjunct1] e mm by blast
  show ?thesis
    using e l u u2 mm a1 a2 a3 a4 a5 a6 a7 a8 a9 by (intro conjI)
qed

text \<open>
  \<open>classes_\<close> appends to the catalogs and sets \<open>class_count_\<close> to the number of labels
  of the call: after a call with two labels the invariant holds, after a second call with
  one label the catalogs have three entries and \<open>class_count_\<close> is 1.
\<close>

theorem classes_twice_counterexample:
  "catalog_invariant (classes_' oor_example (Int32_labels [1, 2]) ProblemSpec_init)
   \<and> \<not> catalog_invariant
        (classes_' oor_example (Int32_labels [3])
           (classes_' oor_example (Int32_labels [1, 2]) ProblemSpec_init))
   \<and> length (Int32_classes_' (classes_' oor_example (Int32_labels [3])
           (classes_' oor_example (Int32_labels [1, 2]) ProblemSpec_init))) = 3
   \<and> class_count_' (classes_' oor_example (Int32_labels [3])
           (classes_' oor_example (Int32_labels [1, 2]) ProblemSpec_init)) = 1"
  by (simp add: classes_'_def ProblemSpec_init_def push_back_class_def catalog_invariant_def)

section \<open>Properties of copyImage and copyImageIf\<close>

text \<open>
  C9. With \<open>w\<close> and \<open>h\<close> the extent of the source range, \<open>copyImage\<close> is the visit of
  the positions of the \<open>w\<close> by \<open>h\<close> domain in row-major order: at each position the
  source value is read, converted to the value type of the destination and written at the
  same offset of the destination. \<open>copyImageIf\<close> visits the same positions in the same
  order, and writes at a position when the mask accessor gives true there and leaves the
  memory as it is otherwise. The row-major list holds every position of the domain, each
  once, rows in the order of \<open>y\<close> and the positions of a row in the order of \<open>x\<close>.
\<close>

theorem copyImage_row_major:
  "copyImage src_upperleft src_lowerright sa dest_upperleft da cast s =
     fold (visit_copy src_upperleft sa dest_upperleft da cast)
       (row_major (fst src_lowerright - fst src_upperleft) (snd src_lowerright - snd src_upperleft)) s
   \<and> copyImageIf src_upperleft src_lowerright sa mask_upperleft ma dest_upperleft da cast s =
     fold (visit_copy_if src_upperleft sa mask_upperleft ma dest_upperleft da cast)
       (row_major (fst src_lowerright - fst src_upperleft) (snd src_lowerright - snd src_upperleft)) s
   \<and> sorted_wrt row_major_before (row_major w h)
   \<and> distinct (row_major w h)
   \<and> set (row_major w h) = {0..<w} \<times> {0..<h}"
  using copyImage_visits [of src_upperleft src_lowerright sa dest_upperleft da cast s]
    copyImageIf_visits [of src_upperleft src_lowerright sa mask_upperleft ma dest_upperleft da cast s]
    sorted_row_major [of w h] distinct_row_major [of w h] set_row_major [of w h]
  by (intro conjI)

theorem copyImage_row_major_witness:
  "row_major 2 2 = [(0, 0), (1, 0), (0, 1), (1, 1)]
   \<and> copyImage (0, 0) (2, 2) (\<lambda>s i. s i) (10, 10) (\<lambda>v i s. s(i := v)) (\<lambda>v. v + 100)
        (\<lambda>i. fst i + 2 * snd i) (11, 10) = (101 :: int)
   \<and> copyImageIf (0, 0) (2, 2) (\<lambda>s i. s i) (0, 0) (\<lambda>s i. fst i = snd i) (10, 10)
        (\<lambda>v i s. s(i := v)) (\<lambda>v. v + 100) (\<lambda>i. fst i + 2 * snd i) (11, 10) = (31 :: int)
   \<and> copyImageIf (0, 0) (2, 2) (\<lambda>s i. s i) (0, 0) (\<lambda>s i. fst i = snd i) (10, 10)
        (\<lambda>v i s. s(i := v)) (\<lambda>v. v + 100) (\<lambda>i. fst i + 2 * snd i) (11, 11) = (103 :: int)"
  using copyImage_row_major [of "(0, 0)" "(2, 2)" "\<lambda>s i. s i" "(10, 10)" "\<lambda>v i s. s(i := v)"
      "\<lambda>v. v + 100" "\<lambda>i. fst i + 2 * snd i" "(0, 0)" "\<lambda>s i. fst i = snd i" 2 2]
  by (simp add: row_major_2_2 visit_copy_def visit_copy_if_def at_offset_def)

end
